theory Spec2Isabelle
  imports Main
begin

section \<open>Data model of the order service\<close>

text \<open>
  The order service of \<^verbatim>\<open>server/polar/order/service.py\<close>, embedded as pure functions over
  an explicit \<open>world\<close>: the rows the ambient database session can see, and the log of
  outward calls (webhooks, jobs, events, notifications) in the order the service makes
  them. A function that can raise returns \<open>(error + 'a) \<times> world\<close>: the exception or the
  value, and the world as it is at that point, so that what happened before a raise
  stays visible.
\<close>

type_synonym uuid = nat
type_synonym metadata = "(string \<times> string) list"

datatype OrderStatus = OrderStatus_pending | OrderStatus_paid

datatype OrderBillingReason =
    OrderBillingReason_purchase
  | OrderBillingReason_subscription_create
  | OrderBillingReason_subscription_cycle
  | OrderBillingReason_subscription_update

datatype WebhookEventType =
    WebhookEventType_order_created
  | WebhookEventType_order_updated
  | WebhookEventType_order_paid

datatype ProductPriceAmountType =
    ProductPriceAmountType_fixed
  | ProductPriceAmountType_custom
  | ProductPriceAmountType_free
  | ProductPriceAmountType_metered_unit

datatype TransactionType = TransactionType_payment | TransactionType_balance

type_synonym TaxabilityReason = string
type_synonym TaxRate = string

record Address =
  address_line1 :: "string option"
  address_line2 :: "string option"
  address_postal_code :: "string option"
  address_city :: "string option"
  address_state :: "string option"
  address_country :: string

record Organization =
  organization_id :: uuid
  organization_slug :: string
  organization_name :: string
  organization_account_url :: string

record ProductPrice =
  product_price_id :: uuid
  product_price_amount_type :: ProductPriceAmountType
  product_price_price_amount :: int
  product_price_stripe_price_id :: "string option"

record Product =
  product_id :: uuid
  product_name :: string
  product_is_recurring :: bool
  product_organization :: Organization
  product_prices :: "ProductPrice list"

record Customer =
  customer_id :: uuid
  customer_email :: string
  customer_billing_name :: "string option"
  customer_billing_address :: "Address option"
  customer_tax_id :: "string option"
  customer_stripe_customer_id :: "string option"

record Discount =
  discount_id :: uuid
  discount_name :: string

record OrderItem =
  order_item_label :: string
  order_item_amount :: int
  order_item_tax_amount :: int
  order_item_proration :: bool
  order_item_product_price :: "ProductPrice option"

record Checkout =
  checkout_id :: uuid
  checkout_client_secret :: string
  checkout_product :: Product
  checkout_customer :: "Customer option"
  checkout_organization :: Organization
  checkout_amount :: int
  checkout_currency :: string
  checkout_discount :: "Discount option"
  checkout_tax_amount :: "int option"
  checkout_tax_processor_id :: "string option"
  checkout_user_metadata :: metadata
  checkout_custom_field_data :: metadata

record Meter =
  meter_id :: uuid
  meter_name :: string

record SubscriptionMeter =
  subscription_meter_meter_id :: uuid
  subscription_meter_meter :: Meter

record Subscription =
  subscription_id :: uuid
  subscription_stripe_subscription_id :: "string option"
  subscription_product :: Product
  subscription_customer :: Customer
  subscription_meters :: "SubscriptionMeter list"
  subscription_user_metadata :: metadata
  subscription_custom_field_data :: metadata

record Order =
  order_id :: uuid
  order_status :: OrderStatus
  order_subtotal_amount :: int
  order_discount_amount :: int
  order_tax_amount :: int
  order_currency :: string
  order_billing_reason :: OrderBillingReason
  order_billing_name :: "string option"
  order_billing_address :: "Address option"
  order_stripe_invoice_id :: "string option"
  order_taxability_reason :: "TaxabilityReason option"
  order_tax_id :: "string option"
  order_tax_rate :: "TaxRate option"
  order_tax_transaction_processor_id :: "string option"
  order_invoice_number :: string
  order_invoice_path :: "string option"
  order_customer :: Customer
  order_product :: Product
  order_discount :: "Discount option"
  order_subscription :: "Subscription option"
  order_checkout :: "Checkout option"
  order_items :: "OrderItem list"
  order_user_metadata :: metadata
  order_custom_field_data :: metadata
  order_created_at :: "int option"

record Payment =
  payment_id :: uuid
  payment_amount :: int
  payment_processor_id :: string
  payment_order_id :: "uuid option"

record Account =
  account_id :: uuid

record Transaction =
  transaction_id :: uuid
  transaction_type :: TransactionType
  transaction_charge_id :: "string option"
  transaction_amount :: int
  transaction_account_id :: "uuid option"
  transaction_order_id :: "uuid option"
  transaction_payment_customer_id :: "uuid option"
  transaction_payment_transaction_id :: "uuid option"

record HeldBalance =
  held_balance_amount :: int
  held_balance_order_id :: uuid
  held_balance_payment_transaction_id :: uuid
  held_balance_organization_id :: "uuid option"

subsection \<open>The request schema of an update\<close>

text \<open>
  Modelled from the spec: the \<^verbatim>\<open>OrderUpdate\<close> and \<^verbatim>\<open>CustomerOrderUpdate\<close> schemas
  (\<^verbatim>\<open>.schemas\<close>, \<^verbatim>\<open>polar.customer_portal.schemas.order\<close>) are not part of the service file.
  The service reads two fields of them, \<^verbatim>\<open>billing_name\<close> and \<^verbatim>\<open>billing_address\<close>, and
  \<^verbatim>\<open>model_fields_set\<close>: a field is \<open>None\<close> when the request did not set it and
  \<open>Some v\<close> when it set it to \<open>v\<close> (which may itself be Python's \<^verbatim>\<open>None\<close>).
\<close>

record OrderUpdate =
  order_update_billing_name :: "string option option"
  order_update_billing_address :: "Address option option"

datatype field_value = name_value "string option" | address_value "Address option"

record ValidationError =
  validation_error_type :: string
  validation_error_loc :: "string \<times> string"
  validation_error_msg :: string
  validation_error_input :: field_value

subsection \<open>Errors\<close>

datatype error =
    RecurringProduct uuid uuid
  | MissingCheckoutCustomer uuid
  | NotAnOrderInvoice string
  | NotASubscriptionInvoice string
  | OrderDoesNotExist string
  | DiscountDoesNotExist string string
  | CheckoutDoesNotExist string string
  | SubscriptionDoesNotExist string string
  | AlreadyBalancedOrder uuid uuid
  | InvoiceAlreadyExists uuid
  | NotPaidOrder uuid
  | MissingInvoiceBillingDetails uuid
  | InvoiceDoesNotExist uuid
  | PaymentTransactionForChargeDoesNotExist string
  | PolarRequestValidationError "ValidationError list"
  | AssertionError
  | KeyError string
  | ValueError
  | PydanticValidationError

subsection \<open>Outward calls\<close>

datatype job =
    job_order_invoice uuid
  | job_order_balance uuid string
  | job_order_discord_notification uuid
  | job_benefit_enqueue_benefits_grants uuid uuid uuid
  | job_benefit_enqueue_benefit_grant_cycles uuid

datatype SystemEvent =
    SystemEvent_meter_reset uuid
  | SystemEvent_meter_credited uuid int bool

datatype notification =
    maintainer_new_product_sale string string int string
  | maintainer_create_account string string

datatype effect =
    webhook_service_send Organization WebhookEventType Order
  | enqueue_job job
  | event_service_create_event uuid uuid SystemEvent
  | publish_checkout_event string
  | notifications_send_to_org_members uuid notification
  | enqueue_email string
  | eventstream_publish string uuid uuid uuid
  | stripe_update_invoice string string
  | platform_fee_create_fees_reversal_balances "Transaction \<times> Transaction"

record world =
  orders :: "Order list"
  organizations :: "Organization list"
  accounts :: "(uuid \<times> Account) list"
  transactions :: "Transaction list"
  held_balances :: "HeldBalance list"
  payments :: "Payment list"
  subscriptions :: "Subscription list"
  discounts :: "Discount list"
  checkouts :: "Checkout list"
  product_price_table :: "ProductPrice list"
  effects :: "effect list"

definition emit :: "effect \<Rightarrow> world \<Rightarrow> world" where
  "emit e w = w\<lparr>effects := effects w @ [e]\<rparr>"

section \<open>Properties and repositories the service relies on\<close>

text \<open>
  Modelled from the spec: the \<^verbatim>\<open>Order.paid\<close> property (\<^verbatim>\<open>polar.models.order\<close>, not part of
  the service file): an order is paid when its status is \<^verbatim>\<open>paid\<close>, the only other status
  being \<^verbatim>\<open>pending\<close>.
\<close>

definition order_paid :: "Order \<Rightarrow> bool" where
  "order_paid order = (order_status order = OrderStatus_paid)"

text \<open>
  Modelled from the spec: \<^verbatim>\<open>Order.subscription_id\<close>, the foreign key of the optional
  subscription (null for a one-time order).
\<close>

definition order_subscription_id :: "Order \<Rightarrow> uuid option" where
  "order_subscription_id order = map_option subscription_id (order_subscription order)"

text \<open>
  Modelled from the spec: \<^verbatim>\<open>Order.organization\<close> and \<^verbatim>\<open>Subscription.organization\<close>, the
  organization owning the product.
\<close>

definition order_organization :: "Order \<Rightarrow> Organization" where
  "order_organization order = product_organization (order_product order)"

definition subscription_organization :: "Subscription \<Rightarrow> Organization" where
  "subscription_organization subscription = product_organization (subscription_product subscription)"

text \<open>
  Modelled from the spec: the repositories (\<^verbatim>\<open>OrderRepository\<close>, \<^verbatim>\<open>OrganizationRepository\<close>,
  not part of the service file). A lookup returns the first matching row or nothing;
  \<^verbatim>\<open>repository.update\<close> writes the changed order back over the row with its id and
  returns it.
\<close>

definition organization_repository_get_by_id :: "uuid \<Rightarrow> world \<Rightarrow> Organization option" where
  "organization_repository_get_by_id i w = find (\<lambda>g. organization_id g = i) (organizations w)"

definition repository_get_by_stripe_invoice_id :: "string \<Rightarrow> world \<Rightarrow> Order option" where
  "repository_get_by_stripe_invoice_id i w =
     find (\<lambda>order. order_stripe_invoice_id order = Some i) (orders w)"

definition repository_update :: "Order \<Rightarrow> world \<Rightarrow> world" where
  "repository_update order w =
     w\<lparr>orders := map (\<lambda>row. if order_id row = order_id order then order else row) (orders w)\<rparr>"

section \<open>Transition notifier\<close>

definition send_webhook :: "Order \<Rightarrow> WebhookEventType \<Rightarrow> world \<Rightarrow> world" where
  "send_webhook order event_type w =
     (case organization_repository_get_by_id
             (organization_id (product_organization (order_product order))) w of
        None \<Rightarrow> w
      | Some organization \<Rightarrow> emit (webhook_service_send organization event_type order) w)"

definition on_order_paid :: "Order \<Rightarrow> world \<Rightarrow> (error + unit) \<times> world" where
  "on_order_paid order w =
     (if \<not> order_paid order then (Inl AssertionError, w)
      else
        let w1 = send_webhook order WebhookEventType_order_paid w in
        (case order_subscription_id order of
           None \<Rightarrow> (Inr (), w1)
         | Some sid \<Rightarrow>
             if order_billing_reason order = OrderBillingReason_subscription_cycle
             then (Inr (), emit (enqueue_job (job_benefit_enqueue_benefit_grant_cycles sid)) w1)
             else (Inr (), w1)))"

definition on_order_created :: "Order \<Rightarrow> world \<Rightarrow> (error + unit) \<times> world" where
  "on_order_created order w =
     (let w1 = send_webhook order WebhookEventType_order_created w;
          w2 = emit (enqueue_job (job_order_discord_notification (order_id order))) w1;
          (r, w3) = (if order_paid order then on_order_paid order w2 else (Inr (), w2))
      in case r of
           Inl e \<Rightarrow> (Inl e, w3)
         | Inr _ \<Rightarrow>
             (case order_checkout order of
                None \<Rightarrow> (Inr (), w3)
              | Some checkout \<Rightarrow>
                  (Inr (), emit (publish_checkout_event (checkout_client_secret checkout)) w3)))"

definition on_order_updated :: "Order \<Rightarrow> OrderStatus \<Rightarrow> world \<Rightarrow> (error + unit) \<times> world" where
  "on_order_updated order previous_status w =
     (let w1 = send_webhook order WebhookEventType_order_updated w;
          became_paid =
            (order_status order = OrderStatus_paid \<and> previous_status \<noteq> OrderStatus_paid)
      in if became_paid then on_order_paid order w1 else (Inr (), w1))"

section \<open>Order update and invoice document\<close>

text \<open>
  The source iterates the Python set \<^verbatim>\<open>{"billing_name", "billing_address"}\<close>, whose order
  is not fixed; the list below fixes one order, and no statement proved later depends on
  the order of the collected errors.
\<close>

definition invoice_locked_fields :: "string list" where
  "invoice_locked_fields = [''billing_name'', ''billing_address'']"

definition order_update_getattr :: "OrderUpdate \<Rightarrow> string \<Rightarrow> field_value option" where
  "order_update_getattr order_update field =
     (if field = ''billing_name'' then map_option name_value (order_update_billing_name order_update)
      else if field = ''billing_address''
        then map_option address_value (order_update_billing_address order_update)
      else None)"

definition order_getattr :: "Order \<Rightarrow> string \<Rightarrow> field_value" where
  "order_getattr order field =
     (if field = ''billing_name'' then name_value (order_billing_name order)
      else address_value (order_billing_address order))"

text \<open>\<^verbatim>\<open>model_dump(exclude_unset=True)\<close> written onto the order: only the fields the request set.\<close>

definition apply_update_dict :: "OrderUpdate \<Rightarrow> Order \<Rightarrow> Order" where
  "apply_update_dict order_update order =
     order\<lparr>order_billing_name :=
              (case order_update_billing_name order_update of
                 None \<Rightarrow> order_billing_name order | Some v \<Rightarrow> v),
            order_billing_address :=
              (case order_update_billing_address order_update of
                 None \<Rightarrow> order_billing_address order | Some v \<Rightarrow> v)\<rparr>"

definition update :: "Order \<Rightarrow> OrderUpdate \<Rightarrow> world \<Rightarrow> (error + Order) \<times> world" where
  "update order order_update w =
     (let errors =
            (if order_invoice_path order \<noteq> None
             then concat (map (\<lambda>field.
                    case order_update_getattr order_update field of
                      None \<Rightarrow> []
                    | Some v \<Rightarrow>
                        if v \<noteq> order_getattr order field
                        then [\<lparr>validation_error_type = ''value_error'',
                               validation_error_loc = (''body'', field),
                               validation_error_msg =
                                 ''This field cannot be updated after the invoice is generated.'',
                               validation_error_input = v\<rparr>]
                        else [])
                  invoice_locked_fields)
             else [])
      in if errors \<noteq> [] then (Inl (PolarRequestValidationError errors), w)
         else
           let order1 = apply_update_dict order_update order;
               w1 = repository_update order1 w
           in (Inr order1, send_webhook order1 WebhookEventType_order_updated w1))"

definition trigger_invoice_generation :: "Order \<Rightarrow> world \<Rightarrow> (error + unit) \<times> world" where
  "trigger_invoice_generation order w =
     (if order_invoice_path order \<noteq> None then (Inl (InvoiceAlreadyExists (order_id order)), w)
      else if \<not> order_paid order then (Inl (NotPaidOrder (order_id order)), w)
      else if order_billing_name order = None \<or> order_billing_address order = None
        then (Inl (MissingInvoiceBillingDetails (order_id order)), w)
      else (Inr (), emit (enqueue_job (job_order_invoice (order_id order))) w))"

section \<open>What the payment processor sends\<close>

record StripeCoupon =
  coupon_id :: string
  coupon_metadata :: "metadata option"

record StripeDiscount =
  stripe_discount_coupon :: StripeCoupon

record StripePrice =
  stripe_price_id :: string
  stripe_price_metadata :: "metadata option"

record StripeLine =
  line_description :: "string option"
  line_amount :: int
  line_tax_amounts :: "int list"
  line_proration :: bool
  line_price :: "StripePrice option"

record StripeTotalTaxAmount =
  total_tax_amount_taxability_reason :: "string option"
  total_tax_amount_tax_rate :: string

record StripeSubscriptionDetails =
  subscription_details_metadata :: "metadata option"

record StripeAddress =
  stripe_address_country :: "string option"
  stripe_address_line1 :: "string option"
  stripe_address_postal_code :: "string option"
  stripe_address_city :: "string option"
  stripe_address_state :: "string option"

record StripeInvoice =
  invoice_id :: "string option"
  invoice_metadata :: "metadata option"
  invoice_subscription :: "string option"
  invoice_customer_address :: "StripeAddress option"
  invoice_charge :: "string option"
  invoice_discount :: "StripeDiscount option"
  invoice_subscription_details :: "StripeSubscriptionDetails option"
  invoice_lines :: "StripeLine list"
  invoice_status :: "string option"
  invoice_billing_reason :: "string option"
  invoice_total_discount_amounts :: "int list option"
  invoice_tax :: "int option"
  invoice_total_tax_amounts :: "StripeTotalTaxAmount list"
  invoice_subtotal :: int
  invoice_currency :: string
  invoice_created :: int

record StripeCard =
  card_country :: "string option"

record StripePaymentMethodDetails =
  payment_method_details_card :: "StripeCard option"

record StripeCharge =
  charge_payment_method_details :: "StripePaymentMethodDetails option"

record StripePaymentIntent =
  payment_intent_latest_charge :: "string option"

record StripeTaxBreakdown =
  tax_breakdown_taxability_reason :: "string option"
  tax_breakdown_tax_rate_details :: string

record StripeTaxCalculation =
  tax_calculation_id :: string
  tax_calculation_tax_amount_exclusive :: int
  tax_calculation_tax_breakdown :: "StripeTaxBreakdown list"

text \<open>
  The collaborators the service only consumes (the processor client, the tax helpers, the
  meter and billing-entry services, the invoice numbering, UUID parsing and address
  validation) are parameters: every statement below holds for any behaviour of them. A
  helper that raises on bad input returns \<open>None\<close> there.
\<close>

record env =
  stripe_get_charge :: "string \<Rightarrow> StripeCharge"
  stripe_get_payment_intent :: "string \<Rightarrow> StripePaymentIntent"
  stripe_get_invoice :: "string \<Rightarrow> StripeInvoice"
  stripe_get_tax_rate :: "string \<Rightarrow> string"
  stripe_get_tax_calculation :: "string \<Rightarrow> StripeTaxCalculation"
  stripe_create_tax_transaction :: "string \<Rightarrow> uuid \<Rightarrow> string"
  stripe_descriptor_suffix_max_length :: nat
  taxability_reason_from_stripe :: "string option \<Rightarrow> int \<Rightarrow> TaxabilityReason option"
  from_stripe_tax_rate :: "string \<Rightarrow> TaxRate option"
  from_stripe_tax_rate_details :: "string \<Rightarrow> TaxRate option"
  get_next_invoice_number :: "Organization \<Rightarrow> string"
  get_rollover_units :: "Customer \<Rightarrow> Meter \<Rightarrow> int"
  create_order_items_from_pending :: "Subscription \<Rightarrow> string \<Rightarrow> string \<Rightarrow> OrderItem list"
  get_discount_amount :: "Discount \<Rightarrow> int \<Rightarrow> int"
  price_label :: "ProductPrice \<Rightarrow> string"
  create_order_invoice :: "Order \<Rightarrow> string"
  uuid_UUID :: "string \<Rightarrow> uuid option"
  address_model_validate :: "StripeAddress \<Rightarrow> Address option"

subsection \<open>Python truthiness and dictionary reads\<close>

definition truthy :: "string option \<Rightarrow> string option" where
  "truthy s = (case s of None \<Rightarrow> None | Some v \<Rightarrow> if v = [] then None else Some v)"

definition or_empty :: "metadata option \<Rightarrow> metadata" where
  "or_empty m = (case m of None \<Rightarrow> [] | Some d \<Rightarrow> d)"

definition dict_get :: "metadata \<Rightarrow> string \<Rightarrow> string option" where
  "dict_get d k = map_of d k"

definition or_zero :: "int option \<Rightarrow> int" where
  "or_zero x = (case x of None \<Rightarrow> 0 | Some n \<Rightarrow> n)"

section \<open>Invoice reconciliation: the update path\<close>

definition update_order_from_stripe ::
  "env \<Rightarrow> StripeInvoice \<Rightarrow> world \<Rightarrow> (error + Order) \<times> world" where
  "update_order_from_stripe env invoice w =
     (case invoice_id invoice of
        None \<Rightarrow> (Inl AssertionError, w)
      | Some iid \<Rightarrow>
          (case repository_get_by_stripe_invoice_id iid w of
             None \<Rightarrow> (Inl (OrderDoesNotExist iid), w)
           | Some order0 \<Rightarrow>
               let previous_status = order_status order0;
                   status = (if invoice_status invoice = Some ''paid''
                             then OrderStatus_paid else OrderStatus_pending);
                   order = order0\<lparr>order_status := status\<rparr>;
                   w1 = repository_update order w;
                   (r, w2) =
                     (if order_paid order then
                        (case truthy (invoice_charge invoice) of
                           Some charge \<Rightarrow>
                             (Inr (), emit (enqueue_job (job_order_balance (order_id order) charge)) w1)
                         | None \<Rightarrow>
                             (case truthy (dict_get (or_empty (invoice_metadata invoice))
                                             ''payment_intent_id'') of
                                None \<Rightarrow> (Inr (), w1)
                              | Some payment_intent_id \<Rightarrow>
                                  (case payment_intent_latest_charge
                                          (stripe_get_payment_intent env payment_intent_id) of
                                     None \<Rightarrow> (Inl AssertionError, w1)
                                   | Some latest_charge \<Rightarrow>
                                       (Inr (), emit (enqueue_job
                                           (job_order_balance (order_id order) latest_charge)) w1))))
                      else (Inr (), w1))
               in (case r of
                     Inl e \<Rightarrow> (Inl e, w2)
                   | Inr _ \<Rightarrow>
                       let (r3, w3) = on_order_updated order previous_status w2
                       in (case r3 of Inl e \<Rightarrow> (Inl e, w3) | Inr _ \<Rightarrow> (Inr order, w3)))))"

text \<open>The jobs the update path enqueues for the balance of a paid order.\<close>

definition balance_jobs :: "env \<Rightarrow> StripeInvoice \<Rightarrow> Order \<Rightarrow> error + effect list" where
  "balance_jobs env invoice order =
     (if order_paid order then
        (case truthy (invoice_charge invoice) of
           Some charge \<Rightarrow> Inr [enqueue_job (job_order_balance (order_id order) charge)]
         | None \<Rightarrow>
             (case truthy (dict_get (or_empty (invoice_metadata invoice)) ''payment_intent_id'') of
                None \<Rightarrow> Inr []
              | Some payment_intent_id \<Rightarrow>
                  (case payment_intent_latest_charge (stripe_get_payment_intent env payment_intent_id) of
                     None \<Rightarrow> Inl AssertionError
                   | Some latest_charge \<Rightarrow>
                       Inr [enqueue_job (job_order_balance (order_id order) latest_charge)])))
      else Inr [])"

section \<open>Invoice document\<close>

definition generate_invoice :: "env \<Rightarrow> Order \<Rightarrow> world \<Rightarrow> Order \<times> world" where
  "generate_invoice env order w =
     (let invoice_path = create_order_invoice env order;
          order1 = order\<lparr>order_invoice_path := Some invoice_path\<rparr>;
          w1 = repository_update order1 w;
          w2 = emit (eventstream_publish ''order.invoice_generated'' (order_id order1)
                       (customer_id (order_customer order1))
                       (organization_id (product_organization (order_product order1)))) w1
      in (order1, send_webhook order1 WebhookEventType_order_updated w2))"

section \<open>Balance settlement\<close>

text \<open>
  Modelled from the spec: the ledger, held-balance and account collaborators
  (\<^verbatim>\<open>balance_transaction_service\<close>, \<^verbatim>\<open>held_balance_service\<close>, \<^verbatim>\<open>AccountRepository\<close>, not part
  of the service file). \<^verbatim>\<open>get_by\<close> returns the first row matching every given column or
  nothing; \<^verbatim>\<open>held_balance_service.create\<close> stores the held balance;
  \<^verbatim>\<open>create_balance_from_charge\<close> stores the two legs of a balance transfer of the given
  amount (out of the source, into the destination account), both tied to the payment
  transaction of the charge, and returns them.
\<close>

definition account_repository_get_by_organization :: "uuid \<Rightarrow> world \<Rightarrow> Account option" where
  "account_repository_get_by_organization organization w = map_of (accounts w) organization"

definition balance_transaction_get_by_charge ::
  "TransactionType \<Rightarrow> string \<Rightarrow> world \<Rightarrow> Transaction option" where
  "balance_transaction_get_by_charge ty charge w =
     find (\<lambda>t. transaction_type t = ty \<and> transaction_charge_id t = Some charge) (transactions w)"

definition balance_transaction_get_by_payment ::
  "TransactionType \<Rightarrow> uuid \<Rightarrow> uuid \<Rightarrow> world \<Rightarrow> Transaction option" where
  "balance_transaction_get_by_payment ty payment_transaction account w =
     find (\<lambda>t. transaction_type t = ty
              \<and> transaction_payment_transaction_id t = Some payment_transaction
              \<and> transaction_account_id t = Some account) (transactions w)"

definition held_balance_service_get_by :: "uuid \<Rightarrow> uuid \<Rightarrow> world \<Rightarrow> HeldBalance option" where
  "held_balance_service_get_by payment_transaction organization w =
     find (\<lambda>h. held_balance_payment_transaction_id h = payment_transaction
              \<and> held_balance_organization_id h = Some organization) (held_balances w)"

definition held_balance_service_create :: "HeldBalance \<Rightarrow> world \<Rightarrow> world" where
  "held_balance_service_create held_balance w =
     w\<lparr>held_balances := held_balances w @ [held_balance]\<rparr>"

definition session_add_transaction :: "Transaction \<Rightarrow> world \<Rightarrow> world" where
  "session_add_transaction t w =
     w\<lparr>transactions :=
         map (\<lambda>row. if transaction_id row = transaction_id t then t else row) (transactions w)\<rparr>"

definition fresh_id :: "uuid list \<Rightarrow> uuid" where
  "fresh_id used = Suc (fold max used 0)"

definition create_balance_from_charge ::
  "Account \<Rightarrow> string \<Rightarrow> int \<Rightarrow> Order \<Rightarrow> world \<Rightarrow> (Transaction \<times> Transaction) \<times> world" where
  "create_balance_from_charge destination_account charge amount order w =
     (let payment_transaction =
            map_option transaction_id
              (balance_transaction_get_by_charge TransactionType_payment charge w);
          i = fresh_id (map transaction_id (transactions w));
          outgoing = \<lparr>transaction_id = i, transaction_type = TransactionType_balance,
                      transaction_charge_id = None, transaction_amount = - amount,
                      transaction_account_id = None,
                      transaction_order_id = Some (order_id order),
                      transaction_payment_customer_id = None,
                      transaction_payment_transaction_id = payment_transaction\<rparr>;
          incoming = \<lparr>transaction_id = Suc i, transaction_type = TransactionType_balance,
                      transaction_charge_id = None, transaction_amount = amount,
                      transaction_account_id = Some (account_id destination_account),
                      transaction_order_id = Some (order_id order),
                      transaction_payment_customer_id = None,
                      transaction_payment_transaction_id = payment_transaction\<rparr>
      in ((outgoing, incoming), w\<lparr>transactions := transactions w @ [outgoing, incoming]\<rparr>))"

definition create_order_balance :: "Order \<Rightarrow> string \<Rightarrow> world \<Rightarrow> (error + unit) \<times> world" where
  "create_order_balance order charge_id w =
     (let organization = order_organization order;
          account = account_repository_get_by_organization (organization_id organization) w
      in case balance_transaction_get_by_charge TransactionType_payment charge_id w of
           None \<Rightarrow> (Inl (PaymentTransactionForChargeDoesNotExist charge_id), w)
         | Some payment_transaction0 \<Rightarrow>
             let transfer_amount = transaction_amount payment_transaction0;
                 payment_transaction = payment_transaction0
                   \<lparr>transaction_order_id := Some (order_id order),
                    transaction_payment_customer_id := Some (customer_id (order_customer order))\<rparr>;
                 w1 = session_add_transaction payment_transaction w;
                 held_balance0 =
                   \<lparr>held_balance_amount = transfer_amount,
                    held_balance_order_id = order_id order,
                    held_balance_payment_transaction_id = transaction_id payment_transaction,
                    held_balance_organization_id = None\<rparr>
             in (case account of
                   None \<Rightarrow>
                     let held_balance = held_balance0
                           \<lparr>held_balance_organization_id := Some (organization_id organization)\<rparr>
                     in (case held_balance_service_get_by (transaction_id payment_transaction)
                                (organization_id organization) w1 of
                           Some existing_held_balance \<Rightarrow>
                             (Inl (AlreadyBalancedOrder (order_id order)
                                     (transaction_id payment_transaction)), w1)
                         | None \<Rightarrow>
                             (Inr (),
                              emit (notifications_send_to_org_members (organization_id organization)
                                      (maintainer_create_account (organization_slug organization)
                                         (organization_account_url organization)))
                                (held_balance_service_create held_balance w1)))
                 | Some account \<Rightarrow>
                     (case balance_transaction_get_by_payment TransactionType_balance
                             (transaction_id payment_transaction) (account_id account) w1 of
                        Some existing_balance_transaction \<Rightarrow>
                          (Inl (AlreadyBalancedOrder (order_id order)
                                  (transaction_id payment_transaction)), w1)
                      | None \<Rightarrow>
                          let (balance_transactions, w2) =
                                create_balance_from_charge account charge_id transfer_amount order w1
                          in (Inr (),
                              emit (platform_fee_create_fees_reversal_balances balance_transactions)
                                w2))))"

text \<open>The payment transaction as \<^verbatim>\<open>create_order_balance\<close> links it to the order and customer.\<close>

definition linked_payment_transaction :: "Order \<Rightarrow> Transaction \<Rightarrow> Transaction" where
  "linked_payment_transaction order payment_transaction =
     payment_transaction
       \<lparr>transaction_order_id := Some (order_id order),
        transaction_payment_customer_id := Some (customer_id (order_customer order))\<rparr>"

text \<open>The held balance \<^verbatim>\<open>create_order_balance\<close> stores when the organization has no account.\<close>

definition order_held_balance :: "Order \<Rightarrow> Transaction \<Rightarrow> HeldBalance" where
  "order_held_balance order payment_transaction =
     \<lparr>held_balance_amount = transaction_amount payment_transaction,
      held_balance_order_id = order_id order,
      held_balance_payment_transaction_id = transaction_id payment_transaction,
      held_balance_organization_id = Some (organization_id (order_organization order))\<rparr>"

section \<open>Checkout-to-order converter\<close>

text \<open>
  Modelled from the spec: the model properties and helpers the converter reads, none of
  them part of the service file. \<^verbatim>\<open>Order.net_amount\<close> is the subtotal less the discount and
  \<^verbatim>\<open>Order.total_amount\<close> adds the tax; \<^verbatim>\<open>is_custom_price\<close> recognises a pay-what-you-want
  price; \<^verbatim>\<open>OrderItem.from_price\<close> takes the given amount for a custom price, the amount the
  price defines for a fixed price and zero otherwise (the service always passes the
  amount with a custom price); \<^verbatim>\<open>Checkout.discount_amount\<close> is what the checkout's discount
  takes off its amount, zero without a discount.
\<close>

definition order_net_amount :: "Order \<Rightarrow> int" where
  "order_net_amount order = order_subtotal_amount order - order_discount_amount order"

definition order_total_amount :: "Order \<Rightarrow> int" where
  "order_total_amount order = order_net_amount order + order_tax_amount order"

definition is_custom_price :: "ProductPrice \<Rightarrow> bool" where
  "is_custom_price price = (product_price_amount_type price = ProductPriceAmountType_custom)"

definition order_item_from_price :: "env \<Rightarrow> ProductPrice \<Rightarrow> int \<Rightarrow> int option \<Rightarrow> OrderItem" where
  "order_item_from_price env price tax_amount amount =
     \<lparr>order_item_label = price_label env price,
      order_item_amount =
        (if product_price_amount_type price = ProductPriceAmountType_custom then or_zero amount
         else if product_price_amount_type price = ProductPriceAmountType_fixed
           then product_price_price_amount price
         else 0),
      order_item_tax_amount = tax_amount,
      order_item_proration = False,
      order_item_product_price = Some price\<rparr>"

definition checkout_discount_amount :: "env \<Rightarrow> Checkout \<Rightarrow> int" where
  "checkout_discount_amount env checkout =
     (case checkout_discount checkout of
        None \<Rightarrow> 0
      | Some discount \<Rightarrow> get_discount_amount env discount (checkout_amount checkout))"

text \<open>
  Modelled from the spec: \<^verbatim>\<open>repository.create\<close> with an immediate flush stores the order
  under a new identifier and returns it; \<^verbatim>\<open>payment_repository.update\<close> links the payment to
  the order.
\<close>

definition repository_create :: "Order \<Rightarrow> world \<Rightarrow> Order \<times> world" where
  "repository_create order w =
     (let order1 = order\<lparr>order_id := fresh_id (map order_id (orders w))\<rparr>
      in (order1, w\<lparr>orders := orders w @ [order1]\<rparr>))"

definition payment_repository_update :: "Payment \<Rightarrow> Order \<Rightarrow> world \<Rightarrow> world" where
  "payment_repository_update payment order w =
     w\<lparr>payments :=
         map (\<lambda>row. if payment_id row = payment_id payment
                     then payment\<lparr>payment_order_id := Some (order_id order)\<rparr> else row)
           (payments w)\<rparr>"

definition send_admin_notification :: "Organization \<Rightarrow> Order \<Rightarrow> world \<Rightarrow> world" where
  "send_admin_notification organization order w =
     (let product = order_product order
      in emit (notifications_send_to_org_members (organization_id (product_organization product))
                 (maintainer_new_product_sale (customer_email (order_customer order))
                    (product_name product) (order_net_amount order)
                    (organization_slug organization))) w)"

definition send_confirmation_email :: "Organization \<Rightarrow> Order \<Rightarrow> world \<Rightarrow> world" where
  "send_confirmation_email organization order w =
     emit (enqueue_email (customer_email (order_customer order))) w"

definition create_from_checkout ::
  "env \<Rightarrow> Checkout \<Rightarrow> Payment option \<Rightarrow> world \<Rightarrow> (error + Order) \<times> world" where
  "create_from_checkout env checkout payment w =
     (let product = checkout_product checkout
      in if product_is_recurring product
         then (Inl (RecurringProduct (checkout_id checkout) (product_id product)), w)
         else
           (case checkout_customer checkout of
              None \<Rightarrow> (Inl (MissingCheckoutCustomer (checkout_id checkout)), w)
            | Some customer \<Rightarrow>
                let prices = product_prices product;
                    items = map (\<lambda>price.
                              if is_custom_price price
                              then order_item_from_price env price 0 (Some (checkout_amount checkout))
                              else order_item_from_price env price 0 None) prices;
                    discount_amount = checkout_discount_amount env checkout;
                    tax_amount = or_zero (checkout_tax_amount checkout);
                    tax_id = customer_tax_id customer;
                    tax_data =
                      (case checkout_tax_processor_id checkout of
                         None \<Rightarrow> Inr (None, None)
                       | Some tax_processor_id \<Rightarrow>
                           let calculation = stripe_get_tax_calculation env tax_processor_id
                           in if tax_amount \<noteq> tax_calculation_tax_amount_exclusive calculation
                              then Inl AssertionError
                              else (case tax_calculation_tax_breakdown calculation of
                                      [] \<Rightarrow> Inl AssertionError
                                    | breakdown # _ \<Rightarrow>
                                        Inr (taxability_reason_from_stripe env
                                               (tax_breakdown_taxability_reason breakdown) tax_amount,
                                             from_stripe_tax_rate_details env
                                               (tax_breakdown_tax_rate_details breakdown))))
                in (case tax_data of
                      Inl e \<Rightarrow> (Inl e, w)
                    | Inr (taxability_reason, tax_rate) \<Rightarrow>
                        let organization = checkout_organization checkout;
                            invoice_number = get_next_invoice_number env organization;
                            (order, w1) = repository_create
                              \<lparr>order_id = 0,
                               order_status = OrderStatus_paid,
                               order_subtotal_amount = checkout_amount checkout,
                               order_discount_amount = discount_amount,
                               order_tax_amount = tax_amount,
                               order_currency = checkout_currency checkout,
                               order_billing_reason = OrderBillingReason_purchase,
                               order_billing_name = customer_billing_name customer,
                               order_billing_address = customer_billing_address customer,
                               order_stripe_invoice_id = None,
                               order_taxability_reason = taxability_reason,
                               order_tax_id = tax_id,
                               order_tax_rate = tax_rate,
                               order_tax_transaction_processor_id = None,
                               order_invoice_number = invoice_number,
                               order_invoice_path = None,
                               order_customer = customer,
                               order_product = product,
                               order_discount = checkout_discount checkout,
                               order_subscription = None,
                               order_checkout = Some checkout,
                               order_items = items,
                               order_user_metadata = checkout_user_metadata checkout,
                               order_custom_field_data = checkout_custom_field_data checkout,
                               order_created_at = None\<rparr> w;
                            (r2, w2) =
                              (case payment of
                                 None \<Rightarrow> (Inr (), w1)
                               | Some p \<Rightarrow>
                                   if payment_amount p \<noteq> order_total_amount order
                                   then (Inl AssertionError, w1)
                                   else (Inr (),
                                         emit (enqueue_job (job_order_balance (order_id order)
                                                 (payment_processor_id p)))
                                           (payment_repository_update p order w1)))
                        in (case r2 of
                              Inl e \<Rightarrow> (Inl e, w2)
                            | Inr _ \<Rightarrow>
                                let (order2, w3) =
                                      (case checkout_tax_processor_id checkout of
                                         None \<Rightarrow> (order, w2)
                                       | Some tax_processor_id \<Rightarrow>
                                           let transaction = stripe_create_tax_transaction env
                                                 tax_processor_id (order_id order);
                                               order1 = order
                                                 \<lparr>order_tax_transaction_processor_id := Some transaction\<rparr>
                                           in (order1, repository_update order1 w2));
                                    w4 = emit (enqueue_job (job_benefit_enqueue_benefits_grants
                                                 (customer_id customer) (product_id product)
                                                 (order_id order2))) w3;
                                    w5 = send_admin_notification organization order2 w4;
                                    w6 = send_confirmation_email organization order2 w5;
                                    (r7, w7) = on_order_created order2 w6
                                in (case r7 of
                                      Inl e \<Rightarrow> (Inl e, w7)
                                    | Inr _ \<Rightarrow> (Inr order2, w7))))))"

section \<open>Invoice reconciliation: the creation path\<close>

text \<open>
  Modelled from the spec: the lookups of the subscription, discount, checkout and product
  price collaborators (first matching row or nothing), the value of
  \<^verbatim>\<open>ProductType.pledge\<close>, and the values of the \<^verbatim>\<open>OrderBillingReason\<close> enumeration, which
  carry the names of its members.
\<close>

definition subscription_repository_get_by_stripe_subscription_id ::
  "string \<Rightarrow> world \<Rightarrow> Subscription option" where
  "subscription_repository_get_by_stripe_subscription_id i w =
     find (\<lambda>row. subscription_stripe_subscription_id row = Some i) (subscriptions w)"

definition discount_service_get :: "uuid \<Rightarrow> world \<Rightarrow> Discount option" where
  "discount_service_get i w = find (\<lambda>row. discount_id row = i) (discounts w)"

definition checkout_repository_get_by_id :: "uuid \<Rightarrow> world \<Rightarrow> Checkout option" where
  "checkout_repository_get_by_id i w = find (\<lambda>row. checkout_id row = i) (checkouts w)"

definition product_price_repository_get_by_id :: "uuid \<Rightarrow> world \<Rightarrow> ProductPrice option" where
  "product_price_repository_get_by_id i w =
     find (\<lambda>row. product_price_id row = i) (product_price_table w)"

definition product_price_repository_get_by_stripe_price_id ::
  "string \<Rightarrow> world \<Rightarrow> ProductPrice option" where
  "product_price_repository_get_by_stripe_price_id i w =
     find (\<lambda>row. product_price_stripe_price_id row = Some i) (product_price_table w)"

definition ProductType_pledge :: string where
  "ProductType_pledge = ''pledge''"

definition OrderBillingReason_of_value :: "string \<Rightarrow> OrderBillingReason option" where
  "OrderBillingReason_of_value v =
     (if v = ''purchase'' then Some OrderBillingReason_purchase
      else if v = ''subscription_create'' then Some OrderBillingReason_subscription_create
      else if v = ''subscription_cycle'' then Some OrderBillingReason_subscription_cycle
      else if v = ''subscription_update'' then Some OrderBillingReason_subscription_update
      else None)"

definition is_empty_customer_address :: "StripeAddress option \<Rightarrow> bool" where
  "is_empty_customer_address customer_address =
     (case customer_address of None \<Rightarrow> True | Some a \<Rightarrow> stripe_address_country a = None)"

text \<open>The block \<^verbatim>\<open># Retrieve billing address\<close>.\<close>

definition retrieve_billing_address ::
  "env \<Rightarrow> Customer \<Rightarrow> StripeInvoice \<Rightarrow> error + Address option" where
  "retrieve_billing_address env customer invoice =
     (case customer_billing_address customer of
        Some a \<Rightarrow> Inr (Some a)
      | None \<Rightarrow>
          if \<not> is_empty_customer_address (invoice_customer_address invoice)
          then (case invoice_customer_address invoice of
                  None \<Rightarrow> Inr None
                | Some customer_address \<Rightarrow>
                    (case address_model_validate env customer_address of
                       None \<Rightarrow> Inl PydanticValidationError
                     | Some a \<Rightarrow> Inr (Some a)))
          else
            (case invoice_charge invoice of
               None \<Rightarrow> Inr None
             | Some charge_id \<Rightarrow>
                 (case charge_payment_method_details (stripe_get_charge env charge_id) of
                    None \<Rightarrow> Inr None
                  | Some payment_method_details \<Rightarrow>
                      (case payment_method_details_card payment_method_details of
                         None \<Rightarrow> Inr None
                       | Some stripe_card \<Rightarrow>
                           (case address_model_validate env
                                   \<lparr>stripe_address_country = card_country stripe_card,
                                    stripe_address_line1 = None,
                                    stripe_address_postal_code = None,
                                    stripe_address_city = None,
                                    stripe_address_state = None\<rparr> of
                              None \<Rightarrow> Inl PydanticValidationError
                            | Some a \<Rightarrow> Inr (Some a))))))"

text \<open>The block \<^verbatim>\<open># Get Discount if available\<close>.\<close>

definition get_discount :: "env \<Rightarrow> string \<Rightarrow> StripeInvoice \<Rightarrow> world \<Rightarrow> error + Discount option" where
  "get_discount env iid invoice w =
     (case invoice_discount invoice of
        None \<Rightarrow> Inr None
      | Some stripe_discount \<Rightarrow>
          let coupon = stripe_discount_coupon stripe_discount
          in (case coupon_metadata coupon of
                None \<Rightarrow> Inl (DiscountDoesNotExist iid (coupon_id coupon))
              | Some metadata \<Rightarrow>
                  (case dict_get metadata ''discount_id'' of
                     None \<Rightarrow> Inl (KeyError ''discount_id'')
                   | Some did \<Rightarrow>
                       (case uuid_UUID env did of
                          None \<Rightarrow> Inl ValueError
                        | Some u \<Rightarrow>
                            (case discount_service_get u w of
                               None \<Rightarrow> Inl (DiscountDoesNotExist iid (coupon_id coupon))
                             | Some discount \<Rightarrow> Inr (Some discount))))))"

text \<open>The block \<^verbatim>\<open># Get Checkout if available\<close>.\<close>

definition get_checkout :: "env \<Rightarrow> string \<Rightarrow> StripeInvoice \<Rightarrow> world \<Rightarrow> error + Checkout option" where
  "get_checkout env iid invoice w =
     (let invoice_metadata = or_empty (invoice_metadata invoice);
          subscription_metadata =
            (case invoice_subscription_details invoice of
               None \<Rightarrow> []
             | Some details \<Rightarrow> or_empty (subscription_details_metadata details));
          cid = (case truthy (dict_get invoice_metadata ''checkout_id'') of
                   Some v \<Rightarrow> Some v
                 | None \<Rightarrow> dict_get subscription_metadata ''checkout_id'')
      in case cid of
           None \<Rightarrow> Inr None
         | Some c \<Rightarrow>
             (case uuid_UUID env c of
                None \<Rightarrow> Inl ValueError
              | Some u \<Rightarrow>
                  (case checkout_repository_get_by_id u w of
                     None \<Rightarrow> Inl (CheckoutDoesNotExist iid c)
                   | Some checkout \<Rightarrow> Inr (Some checkout))))"

text \<open>The loop \<^verbatim>\<open># Handle items\<close> over the invoice lines.\<close>

fun handle_items :: "env \<Rightarrow> world \<Rightarrow> StripeLine list \<Rightarrow> error + OrderItem list" where
  "handle_items env w [] = Inr []"
| "handle_items env w (line # lines) =
     (let tax_amount = sum_list (line_tax_amounts line);
          product_price =
            (case line_price line of
               None \<Rightarrow> Inr None
             | Some price \<Rightarrow>
                 (case truthy (dict_get (or_empty (stripe_price_metadata price))
                                 ''product_price_id'') of
                    Some ppid \<Rightarrow>
                      (case uuid_UUID env ppid of
                         None \<Rightarrow> Inl ValueError
                       | Some u \<Rightarrow> Inr (product_price_repository_get_by_id u w))
                  | None \<Rightarrow>
                      Inr (product_price_repository_get_by_stripe_price_id
                             (stripe_price_id price) w)))
      in case product_price of
           Inl e \<Rightarrow> Inl e
         | Inr pp \<Rightarrow>
             (case handle_items env w lines of
                Inl e \<Rightarrow> Inl e
              | Inr items \<Rightarrow>
                  Inr (\<lparr>order_item_label =
                          (case line_description line of None \<Rightarrow> [] | Some d \<Rightarrow> d),
                        order_item_amount = line_amount line,
                        order_item_tax_amount = tax_amount,
                        order_item_proration = line_proration line,
                        order_item_product_price = pp\<rparr> # items)))"

text \<open>
  The block for a draft invoice: pending billing entries are appended, the invoice is
  reloaded when any was added, and the statement descriptor is set. It returns the items
  and the invoice the rest of the function reads.
\<close>

definition add_pending_billing_entries ::
  "env \<Rightarrow> string \<Rightarrow> Customer \<Rightarrow> Subscription \<Rightarrow> StripeInvoice \<Rightarrow> OrderItem list \<Rightarrow> world
     \<Rightarrow> (error + OrderItem list \<times> StripeInvoice) \<times> world" where
  "add_pending_billing_entries env iid customer subscription invoice items w =
     (if invoice_status invoice = Some ''draft'' then
        (case customer_stripe_customer_id customer of
           None \<Rightarrow> (Inl AssertionError, w)
         | Some stripe_customer_id \<Rightarrow>
             let pending_items = create_order_items_from_pending env subscription iid stripe_customer_id;
                 items1 = items @ pending_items;
                 invoice1 = (if length pending_items > 0 then stripe_get_invoice env iid else invoice)
             in (case invoice_id invoice1 of
                   None \<Rightarrow> (Inl AssertionError, w)
                 | Some iid1 \<Rightarrow>
                     (Inr (items1, invoice1),
                      emit (stripe_update_invoice iid1
                              (take (stripe_descriptor_suffix_max_length env)
                                 (organization_name (subscription_organization subscription)))) w)))
      else (Inr (items, invoice), w))"

text \<open>The block \<^verbatim>\<open># Determine billing reason\<close>.\<close>

definition determine_billing_reason :: "StripeInvoice \<Rightarrow> OrderBillingReason" where
  "determine_billing_reason invoice =
     (case invoice_billing_reason invoice of
        None \<Rightarrow> OrderBillingReason_subscription_cycle
      | Some v \<Rightarrow>
          (case OrderBillingReason_of_value v of
             Some billing_reason \<Rightarrow> billing_reason
           | None \<Rightarrow> OrderBillingReason_subscription_cycle))"

text \<open>The block \<^verbatim>\<open># Calculate discount amount\<close>.\<close>

definition calculate_discount_amount :: "StripeInvoice \<Rightarrow> int" where
  "calculate_discount_amount invoice =
     (case invoice_total_discount_amounts invoice of
        None \<Rightarrow> 0
      | Some amounts \<Rightarrow> sum_list amounts)"

text \<open>
  The loop of \<^verbatim>\<open># Retrieve tax data\<close>: each entry overwrites the taxability reason; the
  first entry whose rate converts ends the loop.
\<close>

fun retrieve_tax_data ::
  "env \<Rightarrow> int \<Rightarrow> StripeTotalTaxAmount list \<Rightarrow> TaxabilityReason option \<times> TaxRate option
     \<Rightarrow> TaxabilityReason option \<times> TaxRate option" where
  "retrieve_tax_data env tax_amount [] acc = acc"
| "retrieve_tax_data env tax_amount (total_tax_amount # rest) (taxability_reason, tax_rate) =
     (let taxability_reason1 = taxability_reason_from_stripe env
            (total_tax_amount_taxability_reason total_tax_amount) tax_amount;
          stripe_tax_rate = stripe_get_tax_rate env (total_tax_amount_tax_rate total_tax_amount)
      in case from_stripe_tax_rate env stripe_tax_rate of
           None \<Rightarrow> retrieve_tax_data env tax_amount rest (taxability_reason1, tax_rate)
         | Some r \<Rightarrow> (taxability_reason1, Some r))"

text \<open>The loop \<^verbatim>\<open># Reset the associated meters, if any\<close>: the events of one meter, then all.\<close>

definition reset_meter :: "env \<Rightarrow> Customer \<Rightarrow> Subscription \<Rightarrow> SubscriptionMeter \<Rightarrow> world \<Rightarrow> world" where
  "reset_meter env customer subscription subscription_meter w =
     (let rollover_units = get_rollover_units env customer (subscription_meter_meter subscription_meter);
          w1 = emit (event_service_create_event (customer_id customer)
                       (organization_id (subscription_organization subscription))
                       (SystemEvent_meter_reset (subscription_meter_meter_id subscription_meter))) w
      in if rollover_units > 0
         then emit (event_service_create_event (customer_id customer)
                      (organization_id (subscription_organization subscription))
                      (SystemEvent_meter_credited (subscription_meter_meter_id subscription_meter)
                         rollover_units True)) w1
         else w1)"

definition reset_meters :: "env \<Rightarrow> Customer \<Rightarrow> Subscription \<Rightarrow> world \<Rightarrow> world" where
  "reset_meters env customer subscription w =
     fold (reset_meter env customer subscription) (subscription_meters subscription) w"

definition create_order_from_stripe ::
  "env \<Rightarrow> StripeInvoice \<Rightarrow> world \<Rightarrow> (error + Order) \<times> world" where
  "create_order_from_stripe env invoice w =
     (case invoice_id invoice of
        None \<Rightarrow> (Inl AssertionError, w)
      | Some iid \<Rightarrow>
          if dict_get (or_empty (invoice_metadata invoice)) ''type'' = Some ProductType_pledge
          then (Inl (NotAnOrderInvoice iid), w)
          else
            (case invoice_subscription invoice of
               None \<Rightarrow> (Inl (NotASubscriptionInvoice iid), w)
             | Some stripe_subscription_id \<Rightarrow>
                 (case subscription_repository_get_by_stripe_subscription_id
                         stripe_subscription_id w of
                    None \<Rightarrow> (Inl (SubscriptionDoesNotExist iid stripe_subscription_id), w)
                  | Some subscription \<Rightarrow>
                      let customer = subscription_customer subscription
                      in (case retrieve_billing_address env customer invoice of
                            Inl e \<Rightarrow> (Inl e, w)
                          | Inr billing_address \<Rightarrow>
                      (case get_discount env iid invoice w of
                            Inl e \<Rightarrow> (Inl e, w)
                          | Inr discount \<Rightarrow>
                      (case get_checkout env iid invoice w of
                            Inl e \<Rightarrow> (Inl e, w)
                          | Inr checkout \<Rightarrow>
                      (case handle_items env w (invoice_lines invoice) of
                            Inl e \<Rightarrow> (Inl e, w)
                          | Inr items0 \<Rightarrow>
                      (case add_pending_billing_entries env iid customer subscription invoice
                              items0 w of
                            (Inl e, w1) \<Rightarrow> (Inl e, w1)
                          | (Inr (items, invoice1), w1) \<Rightarrow>
                              let billing_reason = determine_billing_reason invoice1;
                                  discount_amount = calculate_discount_amount invoice1;
                                  tax_amount = or_zero (invoice_tax invoice1);
                                  tax_id = customer_tax_id customer;
                                  (taxability_reason, tax_rate) =
                                    retrieve_tax_data env tax_amount
                                      (invoice_total_tax_amounts invoice1) (None, None);
                                  user_metadata =
                                    (case checkout of
                                       Some c \<Rightarrow> checkout_user_metadata c
                                     | None \<Rightarrow> subscription_user_metadata subscription);
                                  custom_field_data =
                                    (case checkout of
                                       Some c \<Rightarrow> checkout_custom_field_data c
                                     | None \<Rightarrow> subscription_custom_field_data subscription);
                                  invoice_number = get_next_invoice_number env
                                                     (subscription_organization subscription);
                                  (order, w2) = repository_create
                                    \<lparr>order_id = 0,
                                     order_status =
                                       (if invoice_status invoice1 = Some ''paid''
                                        then OrderStatus_paid else OrderStatus_pending),
                                     order_subtotal_amount = invoice_subtotal invoice1,
                                     order_discount_amount = discount_amount,
                                     order_tax_amount = tax_amount,
                                     order_currency = invoice_currency invoice1,
                                     order_billing_reason = billing_reason,
                                     order_billing_name = customer_billing_name customer,
                                     order_billing_address = billing_address,
                                     order_stripe_invoice_id = invoice_id invoice1,
                                     order_taxability_reason = taxability_reason,
                                     order_tax_id = tax_id,
                                     order_tax_rate = tax_rate,
                                     order_tax_transaction_processor_id = None,
                                     order_invoice_number = invoice_number,
                                     order_invoice_path = None,
                                     order_customer = customer,
                                     order_product = subscription_product subscription,
                                     order_discount = discount,
                                     order_subscription = Some subscription,
                                     order_checkout = checkout,
                                     order_items = items,
                                     order_user_metadata = user_metadata,
                                     order_custom_field_data = custom_field_data,
                                     order_created_at = Some (invoice_created invoice1)\<rparr> w1;
                                  w3 = reset_meters env customer subscription w2;
                                  (r4, w4) = on_order_created order w3
                              in (case r4 of
                                    Inl e \<Rightarrow> (Inl e, w4)
                                  | Inr _ \<Rightarrow> (Inr order, w4))))))))))"

section \<open>Reading the log of outward calls\<close>

text \<open>What a call added to the log: the calls of the later world beyond those of the earlier.\<close>

definition emitted :: "world \<Rightarrow> world \<Rightarrow> effect list" where
  "emitted w w1 = drop (length (effects w)) (effects w1)"

fun is_order_paid_webhook :: "effect \<Rightarrow> bool" where
  "is_order_paid_webhook (webhook_service_send _ WebhookEventType_order_paid _) = True"
| "is_order_paid_webhook _ = False"

fun is_benefit_grant_cycle_job :: "effect \<Rightarrow> bool" where
  "is_benefit_grant_cycle_job (enqueue_job (job_benefit_enqueue_benefit_grant_cycles _)) = True"
| "is_benefit_grant_cycle_job _ = False"

definition is_paid_transition_effect :: "effect \<Rightarrow> bool" where
  "is_paid_transition_effect e = (is_order_paid_webhook e \<or> is_benefit_grant_cycle_job e)"

fun is_meter_event :: "effect \<Rightarrow> bool" where
  "is_meter_event (event_service_create_event _ _ _) = True"
| "is_meter_event _ = False"

fun is_meter_reset_of :: "uuid \<Rightarrow> effect \<Rightarrow> bool" where
  "is_meter_reset_of m (event_service_create_event _ _ (SystemEvent_meter_reset m1)) = (m1 = m)"
| "is_meter_reset_of m _ = False"

fun is_meter_credited_of :: "uuid \<Rightarrow> effect \<Rightarrow> bool" where
  "is_meter_credited_of m (event_service_create_event _ _ (SystemEvent_meter_credited m1 _ _)) = (m1 = m)"
| "is_meter_credited_of m _ = False"

text \<open>What \<^verbatim>\<open>send_webhook\<close> sends: nothing when the organization does not resolve.\<close>

definition webhook_calls :: "Order \<Rightarrow> WebhookEventType \<Rightarrow> world \<Rightarrow> effect list" where
  "webhook_calls order event_type w =
     (case organization_repository_get_by_id
             (organization_id (product_organization (order_product order))) w of
        None \<Rightarrow> []
      | Some organization \<Rightarrow> [webhook_service_send organization event_type order])"

text \<open>
  The calls the paid-transition handler makes for an order: the \<^verbatim>\<open>order_paid\<close> webhook when
  the organization of the product resolves, and the benefit-grant-cycle job for an order
  of a subscription cycle.
\<close>

definition paid_transition_calls :: "Order \<Rightarrow> world \<Rightarrow> effect list" where
  "paid_transition_calls order w =
     (case organization_repository_get_by_id
             (organization_id (product_organization (order_product order))) w of
        None \<Rightarrow> []
      | Some organization \<Rightarrow> [webhook_service_send organization WebhookEventType_order_paid order])
     @ (case order_subscription_id order of
          None \<Rightarrow> []
        | Some sid \<Rightarrow>
            if order_billing_reason order = OrderBillingReason_subscription_cycle
            then [enqueue_job (job_benefit_enqueue_benefit_grant_cycles sid)] else [])"

text \<open>The events the meter reset records for one meter of a subscription.\<close>

definition meter_events :: "env \<Rightarrow> Customer \<Rightarrow> Subscription \<Rightarrow> SubscriptionMeter \<Rightarrow> effect list" where
  "meter_events env customer subscription subscription_meter =
     event_service_create_event (customer_id customer)
       (organization_id (subscription_organization subscription))
       (SystemEvent_meter_reset (subscription_meter_meter_id subscription_meter))
     # (if get_rollover_units env customer (subscription_meter_meter subscription_meter) > 0
        then [event_service_create_event (customer_id customer)
                (organization_id (subscription_organization subscription))
                (SystemEvent_meter_credited (subscription_meter_meter_id subscription_meter)
                   (get_rollover_units env customer (subscription_meter_meter subscription_meter))
                   True)]
        else [])"

text \<open>An update request changes a locked field when it sets it to another value.\<close>

definition changes_locked_field :: "Order \<Rightarrow> OrderUpdate \<Rightarrow> bool" where
  "changes_locked_field order order_update =
     ((case order_update_billing_name order_update of
         None \<Rightarrow> False | Some v \<Rightarrow> v \<noteq> order_billing_name order)
      \<or> (case order_update_billing_address order_update of
            None \<Rightarrow> False | Some v \<Rightarrow> v \<noteq> order_billing_address order))"

section \<open>Concrete data\<close>

definition example_organization :: Organization where
  "example_organization =
     \<lparr>organization_id = 1, organization_slug = ''acme'', organization_name = ''Acme Inc'',
      organization_account_url = ''https://example.com/acme/account''\<rparr>"

definition example_price :: ProductPrice where
  "example_price =
     \<lparr>product_price_id = 7, product_price_amount_type = ProductPriceAmountType_custom,
      product_price_price_amount = 0, product_price_stripe_price_id = Some ''price_1''\<rparr>"

definition example_product :: Product where
  "example_product =
     \<lparr>product_id = 2, product_name = ''Tip jar'', product_is_recurring = False,
      product_organization = example_organization, product_prices = [example_price]\<rparr>"

definition example_address :: Address where
  "example_address =
     \<lparr>address_line1 = Some ''1 Main St'', address_line2 = None, address_postal_code = Some ''75001'',
      address_city = Some ''Paris'', address_state = None, address_country = ''FR''\<rparr>"

definition example_customer :: Customer where
  "example_customer =
     \<lparr>customer_id = 3, customer_email = ''ada@example.com'', customer_billing_name = Some ''Ada'',
      customer_billing_address = Some example_address, customer_tax_id = None,
      customer_stripe_customer_id = Some ''cus_1''\<rparr>"

definition example_meter_a :: SubscriptionMeter where
  "example_meter_a =
     \<lparr>subscription_meter_meter_id = 20,
      subscription_meter_meter = \<lparr>meter_id = 20, meter_name = ''requests''\<rparr>\<rparr>"

definition example_meter_b :: SubscriptionMeter where
  "example_meter_b =
     \<lparr>subscription_meter_meter_id = 21,
      subscription_meter_meter = \<lparr>meter_id = 21, meter_name = ''storage''\<rparr>\<rparr>"

definition example_subscription :: Subscription where
  "example_subscription =
     \<lparr>subscription_id = 5, subscription_stripe_subscription_id = Some ''sub_1'',
      subscription_product = example_product\<lparr>product_is_recurring := True\<rparr>,
      subscription_customer = example_customer,
      subscription_meters = [example_meter_a, example_meter_b],
      subscription_user_metadata = [], subscription_custom_field_data = []\<rparr>"

definition example_order :: Order where
  "example_order =
     \<lparr>order_id = 10, order_status = OrderStatus_pending, order_subtotal_amount = 10000,
      order_discount_amount = 0, order_tax_amount = 0, order_currency = ''usd'',
      order_billing_reason = OrderBillingReason_subscription_cycle,
      order_billing_name = Some ''Ada'', order_billing_address = Some example_address,
      order_stripe_invoice_id = Some ''in_1'', order_taxability_reason = None,
      order_tax_id = None, order_tax_rate = None, order_tax_transaction_processor_id = None,
      order_invoice_number = ''ACME-0001'', order_invoice_path = None,
      order_customer = example_customer, order_product = example_product,
      order_discount = None, order_subscription = Some example_subscription,
      order_checkout = None, order_items = [], order_user_metadata = [],
      order_custom_field_data = [], order_created_at = Some 1700000000\<rparr>"

definition example_payment_transaction :: Transaction where
  "example_payment_transaction =
     \<lparr>transaction_id = 30, transaction_type = TransactionType_payment,
      transaction_charge_id = Some ''ch_1'', transaction_amount = 9000,
      transaction_account_id = None, transaction_order_id = None,
      transaction_payment_customer_id = None, transaction_payment_transaction_id = None\<rparr>"

definition example_world :: world where
  "example_world =
     \<lparr>orders = [example_order], organizations = [example_organization], accounts = [],
      transactions = [example_payment_transaction], held_balances = [], payments = [],
      subscriptions = [example_subscription], discounts = [], checkouts = [],
      product_price_table = [example_price], effects = []\<rparr>"

definition example_invoice :: StripeInvoice where
  "example_invoice =
     \<lparr>invoice_id = Some ''in_1'', invoice_metadata = None, invoice_subscription = Some ''sub_1'',
      invoice_customer_address = None, invoice_charge = Some ''ch_1'', invoice_discount = None,
      invoice_subscription_details = None, invoice_lines = [], invoice_status = Some ''paid'',
      invoice_billing_reason = Some ''subscription_cycle'',
      invoice_total_discount_amounts = None, invoice_tax = None, invoice_total_tax_amounts = [],
      invoice_subtotal = 10000, invoice_currency = ''usd'', invoice_created = 1700000000\<rparr>"

definition example_env :: env where
  "example_env =
     \<lparr>stripe_get_charge = (\<lambda>_. \<lparr>charge_payment_method_details = None\<rparr>),
      stripe_get_payment_intent = (\<lambda>_. \<lparr>payment_intent_latest_charge = Some ''ch_1''\<rparr>),
      stripe_get_invoice = (\<lambda>_. example_invoice),
      stripe_get_tax_rate = (\<lambda>i. i),
      stripe_get_tax_calculation = (\<lambda>i.
        \<lparr>tax_calculation_id = i, tax_calculation_tax_amount_exclusive = 0,
         tax_calculation_tax_breakdown = []\<rparr>),
      stripe_create_tax_transaction = (\<lambda>_ _. ''tax_1''),
      stripe_descriptor_suffix_max_length = 10,
      taxability_reason_from_stripe = (\<lambda>r _. r),
      from_stripe_tax_rate = (\<lambda>r. Some r),
      from_stripe_tax_rate_details = (\<lambda>r. Some r),
      get_next_invoice_number = (\<lambda>_. ''ACME-0002''),
      get_rollover_units = (\<lambda>_ m. if meter_id m = 20 then 5 else 0),
      create_order_items_from_pending = (\<lambda>_ _ _. []),
      get_discount_amount = (\<lambda>_ _. 0),
      price_label = (\<lambda>_. ''Tip''),
      create_order_invoice = (\<lambda>_. ''invoices/10.pdf''),
      uuid_UUID = (\<lambda>s. if s = ''00000000-0000-0000-0000-000000000028'' then Some 40 else None),
      address_model_validate = (\<lambda>_. None)\<rparr>"

definition example_paid_world :: world where
  "example_paid_world = example_world\<lparr>orders := [example_order\<lparr>order_status := OrderStatus_paid\<rparr>]\<rparr>"

definition example_account_world :: world where
  "example_account_world = example_world\<lparr>accounts := [(1, \<lparr>account_id = 60\<rparr>)]\<rparr>"

definition example_checkout :: Checkout where
  "example_checkout =
     \<lparr>checkout_id = 50, checkout_client_secret = ''secret'', checkout_product = example_product,
      checkout_customer = Some example_customer, checkout_organization = example_organization,
      checkout_amount = 10000, checkout_currency = ''usd'', checkout_discount = None,
      checkout_tax_amount = None, checkout_tax_processor_id = None,
      checkout_user_metadata = [], checkout_custom_field_data = []\<rparr>"

definition example_taxed_checkout :: Checkout where
  "example_taxed_checkout = example_checkout\<lparr>checkout_tax_amount := Some 500\<rparr>"

definition example_coupon_invoice :: "metadata option \<Rightarrow> StripeInvoice" where
  "example_coupon_invoice coupon_metadata_value =
     example_invoice\<lparr>invoice_discount :=
       Some \<lparr>stripe_discount_coupon =
               \<lparr>coupon_id = ''co_1'', coupon_metadata = coupon_metadata_value\<rparr>\<rparr>\<rparr>"

section \<open>The transition notifier in closed form\<close>

lemma effects_emit [simp]: "effects (emit e w) = effects w @ [e]"
  by (simp add: emit_def)

lemma get_org_effects_update [simp]:
  "organization_repository_get_by_id i (w\<lparr>effects := es\<rparr>) = organization_repository_get_by_id i w"
  by (simp add: organization_repository_get_by_id_def)

lemma send_webhook_eq:
  "send_webhook order ev w = w\<lparr>effects := effects w @ webhook_calls order ev w\<rparr>"
  by (simp add: send_webhook_def emit_def webhook_calls_def split: option.splits)

lemma webhook_calls_effects_update [simp]:
  "webhook_calls order ev (w\<lparr>effects := es\<rparr>) = webhook_calls order ev w"
  by (simp add: webhook_calls_def)

lemma paid_transition_calls_effects_update [simp]:
  "paid_transition_calls order (w\<lparr>effects := es\<rparr>) = paid_transition_calls order w"
  by (simp add: paid_transition_calls_def)

lemma on_order_paid_eq:
  "on_order_paid order w =
     (if order_paid order
      then (Inr (), w\<lparr>effects := effects w @ paid_transition_calls order w\<rparr>)
      else (Inl AssertionError, w))"
  by (simp add: on_order_paid_def Let_def send_webhook_eq emit_def paid_transition_calls_def
        webhook_calls_def split: option.splits)

lemma on_order_created_eq:
  "on_order_created order w =
     (Inr (), w\<lparr>effects := effects w
        @ webhook_calls order WebhookEventType_order_created w
        @ [enqueue_job (job_order_discord_notification (order_id order))]
        @ (if order_paid order then paid_transition_calls order w else [])
        @ (case order_checkout order of None \<Rightarrow> []
           | Some c \<Rightarrow> [publish_checkout_event (checkout_client_secret c)])\<rparr>)"
  by (simp add: on_order_created_def Let_def send_webhook_eq emit_def on_order_paid_eq
        split: option.splits)

lemma on_order_updated_eq:
  "on_order_updated order previous_status w =
     (Inr (), w\<lparr>effects := effects w
        @ webhook_calls order WebhookEventType_order_updated w
        @ (if order_status order = OrderStatus_paid \<and> previous_status \<noteq> OrderStatus_paid
           then paid_transition_calls order w else [])\<rparr>)"
  by (simp add: on_order_updated_def Let_def send_webhook_eq on_order_paid_eq order_paid_def)

lemma filter_paid_paid_transition_calls [simp]:
  "filter is_paid_transition_effect (paid_transition_calls order w) = paid_transition_calls order w"
  by (simp add: paid_transition_calls_def is_paid_transition_effect_def split: option.splits)

lemma filter_paid_webhook_calls_created [simp]:
  "filter is_paid_transition_effect (webhook_calls order WebhookEventType_order_created w) = []"
  by (simp add: webhook_calls_def is_paid_transition_effect_def split: option.splits)

lemma filter_paid_webhook_calls_updated [simp]:
  "filter is_paid_transition_effect (webhook_calls order WebhookEventType_order_updated w) = []"
  by (simp add: webhook_calls_def is_paid_transition_effect_def split: option.splits)

section \<open>Invoice document controller: the guards of the trigger\<close>

text \<open>
  Claim C7. \<^verbatim>\<open>trigger_invoice_generation\<close> raises exactly when the order already has an
  invoice document, or is not paid, or lacks a billing name or a billing address. The
  checks run in that order: an existing document gives \<^verbatim>\<open>InvoiceAlreadyExists\<close> whatever
  else holds, then an unpaid order gives \<^verbatim>\<open>NotPaidOrder\<close>, then missing billing details give
  \<^verbatim>\<open>MissingInvoiceBillingDetails\<close>; a raise leaves the world as it was. Otherwise the
  \<^verbatim>\<open>order.invoice\<close> job is enqueued for the order and nothing else happens. In every case the
  stored orders are unchanged.
\<close>

theorem trigger_invoice_generation_guard:
  "((\<exists>e. fst (trigger_invoice_generation order w) = Inl e) \<longleftrightarrow>
      (order_invoice_path order \<noteq> None \<or> \<not> order_paid order
       \<or> order_billing_name order = None \<or> order_billing_address order = None))
   \<and> (order_invoice_path order \<noteq> None \<longrightarrow>
        trigger_invoice_generation order w = (Inl (InvoiceAlreadyExists (order_id order)), w))
   \<and> (order_invoice_path order = None \<and> \<not> order_paid order \<longrightarrow>
        trigger_invoice_generation order w = (Inl (NotPaidOrder (order_id order)), w))
   \<and> (order_invoice_path order = None \<and> order_paid order
        \<and> (order_billing_name order = None \<or> order_billing_address order = None) \<longrightarrow>
        trigger_invoice_generation order w = (Inl (MissingInvoiceBillingDetails (order_id order)), w))
   \<and> (order_invoice_path order = None \<and> order_paid order
        \<and> order_billing_name order \<noteq> None \<and> order_billing_address order \<noteq> None \<longrightarrow>
        trigger_invoice_generation order w =
          (Inr (), w\<lparr>effects := effects w @ [enqueue_job (job_order_invoice (order_id order))]\<rparr>))
   \<and> orders (snd (trigger_invoice_generation order w)) = orders w"
  by (simp add: trigger_invoice_generation_def emit_def)

theorem trigger_invoice_generation_guard_witness:
  "trigger_invoice_generation (example_order\<lparr>order_status := OrderStatus_paid\<rparr>) example_world =
     (Inr (), example_world\<lparr>effects := [enqueue_job (job_order_invoice 10)]\<rparr>)
   \<and> trigger_invoice_generation example_order example_world = (Inl (NotPaidOrder 10), example_world)
   \<and> trigger_invoice_generation
        (example_order\<lparr>order_status := OrderStatus_paid, order_invoice_path := Some ''invoices/10.pdf''\<rparr>)
        example_world = (Inl (InvoiceAlreadyExists 10), example_world)
   \<and> trigger_invoice_generation
        (example_order\<lparr>order_status := OrderStatus_paid, order_billing_address := None\<rparr>)
        example_world = (Inl (MissingInvoiceBillingDetails 10), example_world)"
  using trigger_invoice_generation_guard [of "example_order\<lparr>order_status := OrderStatus_paid\<rparr>" example_world]
        trigger_invoice_generation_guard [of example_order example_world]
        trigger_invoice_generation_guard [of "example_order\<lparr>order_status := OrderStatus_paid, order_invoice_path := Some ''invoices/10.pdf''\<rparr>" example_world]
        trigger_invoice_generation_guard [of "example_order\<lparr>order_status := OrderStatus_paid, order_billing_address := None\<rparr>" example_world]
  by (simp add: example_order_def example_world_def order_paid_def)

section \<open>The paid-transition handler is reached on paid orders only\<close>

text \<open>
  Claim C10. The handler \<^verbatim>\<open>_on_order_paid\<close> opens with \<^verbatim>\<open>assert order.paid\<close>. Its two
  callers, \<^verbatim>\<open>_on_order_created\<close> and \<^verbatim>\<open>_on_order_updated\<close>, never trip that assertion: both
  always return normally. For an order that is not paid (where calling the handler
  directly would raise the assertion error) neither caller sends the \<^verbatim>\<open>order_paid\<close> webhook
  or enqueues the benefit-grant-cycle job.
\<close>

theorem on_order_paid_only_for_paid_orders:
  "fst (on_order_created order w) = Inr ()
   \<and> fst (on_order_updated order previous_status w) = Inr ()
   \<and> (\<not> order_paid order \<longrightarrow>
        fst (on_order_paid order w) = Inl AssertionError
        \<and> filter is_paid_transition_effect (emitted w (snd (on_order_created order w))) = []
        \<and> filter is_paid_transition_effect
              (emitted w (snd (on_order_updated order previous_status w))) = [])"
  by (simp add: on_order_created_eq on_order_updated_eq on_order_paid_eq emitted_def order_paid_def
        is_paid_transition_effect_def split: option.splits)

theorem on_order_paid_only_for_paid_orders_witness:
  "\<not> order_paid example_order
   \<and> fst (on_order_paid example_order example_world) = Inl AssertionError
   \<and> fst (on_order_created example_order example_world) = Inr ()
   \<and> filter is_paid_transition_effect
        (emitted example_world (snd (on_order_created example_order example_world))) = []
   \<and> filter is_paid_transition_effect
        (emitted example_world
           (snd (on_order_updated example_order OrderStatus_pending example_world))) = []"
  using on_order_paid_only_for_paid_orders [of example_order example_world OrderStatus_pending]
  by (simp add: order_paid_def example_order_def)

section \<open>Invoice locking of the billing fields\<close>

lemma order_id_apply_update_dict [simp]:
  "order_id (apply_update_dict order_update order) = order_id order"
  by (simp add: apply_update_dict_def)

lemma apply_update_dict_same:
  "\<not> changes_locked_field order order_update \<Longrightarrow> apply_update_dict order_update order = order"
  by (auto simp: changes_locked_field_def apply_update_dict_def split: option.splits)

lemma update_unlocked:
  "order_invoice_path order = None \<Longrightarrow>
   update order order_update w =
     (Inr (apply_update_dict order_update order),
      send_webhook (apply_update_dict order_update order) WebhookEventType_order_updated
        (repository_update (apply_update_dict order_update order) w))"
  by (simp add: update_def Let_def)

lemma update_locked_errors:
  "order_invoice_path order \<noteq> None \<Longrightarrow>
   (concat (map (\<lambda>field.
        case order_update_getattr order_update field of
          None \<Rightarrow> []
        | Some v \<Rightarrow>
            if v \<noteq> order_getattr order field
            then [\<lparr>validation_error_type = ''value_error'',
                   validation_error_loc = (''body'', field),
                   validation_error_msg =
                     ''This field cannot be updated after the invoice is generated.'',
                   validation_error_input = v\<rparr>]
            else [])
      invoice_locked_fields) \<noteq> []) = changes_locked_field order order_update"
  by (auto simp: invoice_locked_fields_def order_update_getattr_def order_getattr_def
        changes_locked_field_def split: option.splits)

text \<open>
  Claim C3. On an order without an invoice document (\<^verbatim>\<open>invoice_path\<close> is \<^verbatim>\<open>None\<close>) an update
  succeeds: it returns the order with the submitted fields written, stores it, and a
  submitted billing name is the billing name of the result. On an order whose
  \<^verbatim>\<open>invoice_path\<close> is set, an update that sets the billing name or the billing address to a
  value different from the order's raises \<^verbatim>\<open>PolarRequestValidationError\<close> with a non-empty
  list of field-level errors (type \<^verbatim>\<open>value_error\<close>, located at the body field, one for each
  changed locked field), and the world, hence the stored order, is left as it was.
\<close>

theorem update_invoice_lock:
  "(order_invoice_path order = None \<longrightarrow>
      (\<exists>w1. update order order_update w = (Inr (apply_update_dict order_update order), w1)
            \<and> orders w1 = map (\<lambda>row. if order_id row = order_id order
                                       then apply_update_dict order_update order else row) (orders w))
      \<and> (\<forall>v. order_update_billing_name order_update = Some v \<longrightarrow>
               order_billing_name (apply_update_dict order_update order) = v))
   \<and> (order_invoice_path order \<noteq> None \<and> changes_locked_field order order_update \<longrightarrow>
        (\<exists>errors. update order order_update w = (Inl (PolarRequestValidationError errors), w)
           \<and> errors \<noteq> []
           \<and> (\<forall>e \<in> set errors.
                 validation_error_type e = ''value_error''
                 \<and> validation_error_loc e \<in> {(''body'', ''billing_name''), (''body'', ''billing_address'')})
           \<and> ((\<exists>v. order_update_billing_name order_update = Some v \<and> v \<noteq> order_billing_name order)
                 \<longrightarrow> (''body'', ''billing_name'') \<in> validation_error_loc ` set errors)
           \<and> ((\<exists>v. order_update_billing_address order_update = Some v \<and> v \<noteq> order_billing_address order)
                 \<longrightarrow> (''body'', ''billing_address'') \<in> validation_error_loc ` set errors)))"
proof (intro conjI impI)
  assume "order_invoice_path order = None"
  then show "\<exists>w1. update order order_update w = (Inr (apply_update_dict order_update order), w1)
            \<and> orders w1 = map (\<lambda>row. if order_id row = order_id order
                                       then apply_update_dict order_update order else row) (orders w)"
    by (simp add: update_unlocked send_webhook_eq repository_update_def)
next
  show "\<forall>v. order_update_billing_name order_update = Some v \<longrightarrow>
               order_billing_name (apply_update_dict order_update order) = v"
    by (simp add: apply_update_dict_def)
next
  assume a: "order_invoice_path order \<noteq> None \<and> changes_locked_field order order_update"
  then show "\<exists>errors. update order order_update w = (Inl (PolarRequestValidationError errors), w)
           \<and> errors \<noteq> []
           \<and> (\<forall>e \<in> set errors.
                 validation_error_type e = ''value_error''
                 \<and> validation_error_loc e \<in> {(''body'', ''billing_name''), (''body'', ''billing_address'')})
           \<and> ((\<exists>v. order_update_billing_name order_update = Some v \<and> v \<noteq> order_billing_name order)
                 \<longrightarrow> (''body'', ''billing_name'') \<in> validation_error_loc ` set errors)
           \<and> ((\<exists>v. order_update_billing_address order_update = Some v \<and> v \<noteq> order_billing_address order)
                 \<longrightarrow> (''body'', ''billing_address'') \<in> validation_error_loc ` set errors)"
    by (auto simp: update_def Let_def invoice_locked_fields_def order_update_getattr_def
          order_getattr_def changes_locked_field_def split: option.splits)
qed

theorem update_invoice_lock_witness:
  "update example_order
     \<lparr>order_update_billing_name = Some (Some ''Grace''), order_update_billing_address = None\<rparr>
     example_world =
     (Inr (example_order\<lparr>order_billing_name := Some ''Grace''\<rparr>),
      example_world
        \<lparr>orders := [example_order\<lparr>order_billing_name := Some ''Grace''\<rparr>],
         effects := [webhook_service_send example_organization WebhookEventType_order_updated
                      (example_order\<lparr>order_billing_name := Some ''Grace''\<rparr>)]\<rparr>)
   \<and> (\<exists>errors.
         update (example_order\<lparr>order_invoice_path := Some ''invoices/10.pdf''\<rparr>)
           \<lparr>order_update_billing_name = Some (Some ''Grace''), order_update_billing_address = None\<rparr>
           example_world = (Inl (PolarRequestValidationError errors), example_world)
         \<and> (''body'', ''billing_name'') \<in> validation_error_loc ` set errors)"
  using update_invoice_lock [of example_order
          "\<lparr>order_update_billing_name = Some (Some ''Grace''), order_update_billing_address = None\<rparr>"
          example_world]
        update_invoice_lock [of "example_order\<lparr>order_invoice_path := Some ''invoices/10.pdf''\<rparr>"
          "\<lparr>order_update_billing_name = Some (Some ''Grace''), order_update_billing_address = None\<rparr>"
          example_world]
  by (simp add: example_order_def example_world_def changes_locked_field_def update_def Let_def
        apply_update_dict_def repository_update_def send_webhook_eq webhook_calls_def
        organization_repository_get_by_id_def example_product_def example_organization_def
        invoice_locked_fields_def order_update_getattr_def order_getattr_def)

text \<open>
  Claim C9. Once \<^verbatim>\<open>invoice_path\<close> is set, the update raises the validation error exactly
  when it would change a locked field. An update whose locked fields, where submitted,
  equal the order's current values succeeds, and leaves the order as it is.
\<close>

theorem update_same_value_passes_lock:
  "order_invoice_path order \<noteq> None \<Longrightarrow>
   ((\<exists>errors. fst (update order order_update w) = Inl (PolarRequestValidationError errors))
      \<longleftrightarrow> changes_locked_field order order_update)
   \<and> (\<not> changes_locked_field order order_update \<longrightarrow>
        apply_update_dict order_update order = order
        \<and> update order order_update w =
            (Inr order, send_webhook order WebhookEventType_order_updated (repository_update order w)))"
proof -
  assume locked: "order_invoice_path order \<noteq> None"
  have fails: "changes_locked_field order order_update \<Longrightarrow>
      \<exists>errors. fst (update order order_update w) = Inl (PolarRequestValidationError errors)"
    using locked update_locked_errors [of order order_update]
    by (simp add: update_def Let_def)
  have passes: "\<not> changes_locked_field order order_update \<Longrightarrow>
      update order order_update w =
        (Inr order, send_webhook order WebhookEventType_order_updated (repository_update order w))"
    using locked update_locked_errors [of order order_update]
    by (simp add: update_def Let_def apply_update_dict_same)
  show ?thesis
  proof (cases "changes_locked_field order order_update")
    case True
    then show ?thesis using fails by simp
  next
    case False
    then show ?thesis using passes [OF False] by (simp add: apply_update_dict_same)
  qed
qed

theorem update_same_value_passes_lock_witness:
  "update (example_order\<lparr>order_invoice_path := Some ''invoices/10.pdf''\<rparr>)
     \<lparr>order_update_billing_name = Some (Some ''Ada''),
      order_update_billing_address = Some (Some example_address)\<rparr> example_world =
     (Inr (example_order\<lparr>order_invoice_path := Some ''invoices/10.pdf''\<rparr>),
      send_webhook (example_order\<lparr>order_invoice_path := Some ''invoices/10.pdf''\<rparr>)
        WebhookEventType_order_updated
        (repository_update (example_order\<lparr>order_invoice_path := Some ''invoices/10.pdf''\<rparr>)
           example_world))"
  using update_same_value_passes_lock
          [of "example_order\<lparr>order_invoice_path := Some ''invoices/10.pdf''\<rparr>"
              "\<lparr>order_update_billing_name = Some (Some ''Ada''),
                order_update_billing_address = Some (Some example_address)\<rparr>" example_world]
  by (simp add: example_order_def changes_locked_field_def)

section \<open>Paid updates applied twice\<close>

lemma find_map_replace:
  "find P xs = Some a \<Longrightarrow> P b \<Longrightarrow>
   find P (map (\<lambda>row. if key row = key a then b else row) xs) = Some b"
  by (induction xs) (auto split: if_splits)

lemma get_by_stripe_invoice_id_repository_update:
  "repository_get_by_stripe_invoice_id iid w = Some order0 \<Longrightarrow>
   order_id order1 = order_id order0 \<Longrightarrow> order_stripe_invoice_id order1 = Some iid \<Longrightarrow>
   repository_get_by_stripe_invoice_id iid (repository_update order1 w) = Some order1"
  using find_map_replace [of "\<lambda>order. order_stripe_invoice_id order = Some iid" "orders w" order0 order1 order_id]
  by (simp add: repository_get_by_stripe_invoice_id_def repository_update_def)

lemma find_Some_P: "find P xs = Some a \<Longrightarrow> P a"
  by (induction xs) (auto split: if_splits)

lemma get_by_stripe_invoice_id_effects [simp]:
  "repository_get_by_stripe_invoice_id iid (w\<lparr>effects := es\<rparr>) = repository_get_by_stripe_invoice_id iid w"
  by (simp add: repository_get_by_stripe_invoice_id_def)

lemma get_org_repository_update [simp]:
  "organization_repository_get_by_id i (repository_update order w) = organization_repository_get_by_id i w"
  by (simp add: organization_repository_get_by_id_def repository_update_def)

lemma webhook_calls_repository_update [simp]:
  "webhook_calls order ev (repository_update order1 w) = webhook_calls order ev w"
  by (simp add: webhook_calls_def)

lemma paid_transition_calls_repository_update [simp]:
  "paid_transition_calls order (repository_update order1 w) = paid_transition_calls order w"
  by (simp add: paid_transition_calls_def)

lemma effects_repository_update [simp]:
  "effects (repository_update order w) = effects w"
  by (simp add: repository_update_def)

lemma repository_update_effects_commute:
  "repository_update order (w\<lparr>effects := es\<rparr>) = (repository_update order w)\<lparr>effects := es\<rparr>"
  by (simp add: repository_update_def)

lemma update_order_from_stripe_eq:
  assumes "invoice_id invoice = Some iid"
    and "repository_get_by_stripe_invoice_id iid w = Some order0"
  shows "update_order_from_stripe env invoice w =
     (let order = order0\<lparr>order_status := (if invoice_status invoice = Some ''paid''
                                            then OrderStatus_paid else OrderStatus_pending)\<rparr>;
          w1 = repository_update order w
      in case balance_jobs env invoice order of
           Inl e \<Rightarrow> (Inl e, w1)
         | Inr js \<Rightarrow>
             (Inr order,
              w1\<lparr>effects := effects w @ js
                   @ webhook_calls order WebhookEventType_order_updated w
                   @ (if order_status order = OrderStatus_paid \<and> order_status order0 \<noteq> OrderStatus_paid
                      then paid_transition_calls order w else [])\<rparr>))"
  using assms
  by (simp add: update_order_from_stripe_def Let_def balance_jobs_def on_order_updated_eq emit_def
        split: option.splits)

lemma filter_paid_balance_jobs:
  "balance_jobs env invoice order = Inr js \<Longrightarrow> filter is_paid_transition_effect js = []"
  by (auto simp: balance_jobs_def is_paid_transition_effect_def split: if_splits option.splits)

lemma filter_webhook_of_paid:
  "filter is_order_paid_webhook xs = filter is_order_paid_webhook (filter is_paid_transition_effect xs)"
  by (induction xs) (auto simp: is_paid_transition_effect_def)

lemma filter_cycle_job_of_paid:
  "filter is_benefit_grant_cycle_job xs =
     filter is_benefit_grant_cycle_job (filter is_paid_transition_effect xs)"
  by (induction xs) (auto simp: is_paid_transition_effect_def)

text \<open>
  Claim C1, as amended. Take a \<^verbatim>\<open>paid\<close> invoice-update event for a stored order, applied
  twice through \<^verbatim>\<open>update_order_from_stripe\<close>, the first application returning normally.
  Then the second returns normally too, with the same paid order, and the paid-transition
  effects are edge-triggered: the first application runs them exactly when the order was
  not paid before it, and the second never runs them. So over the two applications an
  order that was not yet paid gets one \<^verbatim>\<open>order_paid\<close> webhook (when the organization of its
  product resolves) and, when it is a subscription-cycle order, one benefit-grant-cycle
  job; an order that was already paid gets none of them.
\<close>

theorem paid_update_twice_fires_on_the_edge_only:
  assumes "invoice_status invoice = Some ''paid''"
    and "invoice_id invoice = Some iid"
    and "repository_get_by_stripe_invoice_id iid w = Some order0"
    and "update_order_from_stripe env invoice w = (Inr order1, w1)"
  shows "\<exists>w2. update_order_from_stripe env invoice w1 = (Inr order1, w2)
           \<and> order_status order1 = OrderStatus_paid
           \<and> filter is_paid_transition_effect (emitted w w1) =
               (if order_status order0 = OrderStatus_paid then []
                else paid_transition_calls order1 w)
           \<and> filter is_paid_transition_effect (emitted w1 w2) = []
           \<and> length (filter is_order_paid_webhook (emitted w w1 @ emitted w1 w2)) =
               (if order_status order0 \<noteq> OrderStatus_paid
                   \<and> organization_repository_get_by_id
                        (organization_id (product_organization (order_product order1))) w \<noteq> None
                then 1 else 0)
           \<and> length (filter is_benefit_grant_cycle_job (emitted w w1 @ emitted w1 w2)) =
               (if order_status order0 \<noteq> OrderStatus_paid
                   \<and> order_subscription_id order1 \<noteq> None
                   \<and> order_billing_reason order1 = OrderBillingReason_subscription_cycle
                then 1 else 0)"
proof -
  define order where "order = order0\<lparr>order_status := OrderStatus_paid\<rparr>"
  have inv0: "order_stripe_invoice_id order0 = Some iid"
    using find_Some_P [of "\<lambda>order. order_stripe_invoice_id order = Some iid" "orders w" order0] assms(3)
    by (simp add: repository_get_by_stripe_invoice_id_def)
  from assms(4) obtain js where js: "balance_jobs env invoice order = Inr js"
    and o1: "order1 = order"
    and w1: "w1 = (repository_update order w)\<lparr>effects := effects w @ js
                   @ webhook_calls order WebhookEventType_order_updated w
                   @ (if order_status order0 \<noteq> OrderStatus_paid
                      then paid_transition_calls order w else [])\<rparr>"
    using assms(1) by (auto simp: update_order_from_stripe_eq [OF assms(2,3)] Let_def order_def
          split: sum.splits)
  have look: "repository_get_by_stripe_invoice_id iid w1 = Some order"
    using get_by_stripe_invoice_id_repository_update [OF assms(3), of order] inv0
    by (simp add: w1 order_def)
  have same: "order\<lparr>order_status := OrderStatus_paid\<rparr> = order"
    by (simp add: order_def)
  have second: "update_order_from_stripe env invoice w1 =
      (Inr order, (repository_update order w1)\<lparr>effects := effects w1 @ js
                   @ webhook_calls order WebhookEventType_order_updated w1\<rparr>)"
    using assms(1) js
    by (simp add: update_order_from_stripe_eq [OF assms(2) look] Let_def same)
  have f1: "filter is_paid_transition_effect (emitted w w1) =
               (if order_status order0 = OrderStatus_paid then []
                else paid_transition_calls order1 w)"
    using filter_paid_balance_jobs [OF js] by (simp add: w1 emitted_def o1)
  have f2: "filter is_paid_transition_effect
              (emitted w1 ((repository_update order w1)\<lparr>effects := effects w1 @ js
                   @ webhook_calls order WebhookEventType_order_updated w1\<rparr>)) = []"
    using filter_paid_balance_jobs [OF js] by (simp add: emitted_def)
  let ?w2 = "(repository_update order w1)\<lparr>effects := effects w1 @ js
                   @ webhook_calls order WebhookEventType_order_updated w1\<rparr>"
  have g1: "filter is_order_paid_webhook (emitted w w1 @ emitted w1 ?w2) =
      filter is_order_paid_webhook
        (if order_status order0 = OrderStatus_paid then [] else paid_transition_calls order1 w)"
    using filter_webhook_of_paid [of "emitted w w1 @ emitted w1 ?w2"] f1 f2 by simp
  have g2: "filter is_benefit_grant_cycle_job (emitted w w1 @ emitted w1 ?w2) =
      filter is_benefit_grant_cycle_job
        (if order_status order0 = OrderStatus_paid then [] else paid_transition_calls order1 w)"
    using filter_cycle_job_of_paid [of "emitted w w1 @ emitted w1 ?w2"] f1 f2 by simp
  have c1: "length (filter is_order_paid_webhook (emitted w w1 @ emitted w1 ?w2)) =
               (if order_status order0 \<noteq> OrderStatus_paid
                   \<and> organization_repository_get_by_id
                        (organization_id (product_organization (order_product order1))) w \<noteq> None
                then 1 else 0)"
    unfolding g1 by (auto simp: paid_transition_calls_def split: option.splits)
  have c2: "length (filter is_benefit_grant_cycle_job (emitted w w1 @ emitted w1 ?w2)) =
               (if order_status order0 \<noteq> OrderStatus_paid
                   \<and> order_subscription_id order1 \<noteq> None
                   \<and> order_billing_reason order1 = OrderBillingReason_subscription_cycle
                then 1 else 0)"
    unfolding g2 by (auto simp: paid_transition_calls_def split: option.splits)
  have st: "order_status order1 = OrderStatus_paid"
    by (simp add: o1 order_def)
  show ?thesis
    using second f1 f2 c1 c2 st unfolding o1 by blast
qed

lemma example_first_update:
  "update_order_from_stripe example_env example_invoice example_world =
     (Inr (example_order\<lparr>order_status := OrderStatus_paid\<rparr>),
      example_paid_world\<lparr>effects :=
        [enqueue_job (job_order_balance 10 ''ch_1''),
         webhook_service_send example_organization WebhookEventType_order_updated
           (example_order\<lparr>order_status := OrderStatus_paid\<rparr>),
         webhook_service_send example_organization WebhookEventType_order_paid
           (example_order\<lparr>order_status := OrderStatus_paid\<rparr>),
         enqueue_job (job_benefit_enqueue_benefit_grant_cycles 5)]\<rparr>)"
  by (simp add: update_order_from_stripe_def Let_def on_order_updated_eq emit_def
        repository_get_by_stripe_invoice_id_def repository_update_def order_paid_def truthy_def
        webhook_calls_def paid_transition_calls_def organization_repository_get_by_id_def
        order_subscription_id_def example_paid_world_def
        example_world_def example_order_def example_invoice_def example_product_def
        example_organization_def example_subscription_def)

theorem paid_update_twice_already_paid_counterexample:
  "invoice_status example_invoice = Some ''paid''
   \<and> fst (update_order_from_stripe example_env example_invoice example_paid_world)
       = Inr (example_order\<lparr>order_status := OrderStatus_paid\<rparr>)
   \<and> fst (update_order_from_stripe example_env example_invoice
             (snd (update_order_from_stripe example_env example_invoice example_paid_world)))
       = Inr (example_order\<lparr>order_status := OrderStatus_paid\<rparr>)
   \<and> filter is_paid_transition_effect
         (effects (snd (update_order_from_stripe example_env example_invoice
             (snd (update_order_from_stripe example_env example_invoice example_paid_world))))) = []"
  by (simp add: update_order_from_stripe_def Let_def on_order_updated_eq emit_def
        repository_get_by_stripe_invoice_id_def repository_update_def order_paid_def truthy_def
        webhook_calls_def paid_transition_calls_def organization_repository_get_by_id_def
        order_subscription_id_def example_paid_world_def is_paid_transition_effect_def
        example_world_def example_order_def example_invoice_def example_product_def
        example_organization_def example_subscription_def)

theorem paid_update_twice_fires_on_the_edge_only_witness:
  "\<exists>w2. update_order_from_stripe example_env example_invoice
           (snd (update_order_from_stripe example_env example_invoice example_world))
         = (Inr (example_order\<lparr>order_status := OrderStatus_paid\<rparr>), w2)
      \<and> length (filter is_order_paid_webhook
            (emitted example_world (snd (update_order_from_stripe example_env example_invoice example_world))
             @ emitted (snd (update_order_from_stripe example_env example_invoice example_world)) w2)) = 1
      \<and> length (filter is_benefit_grant_cycle_job
            (emitted example_world (snd (update_order_from_stripe example_env example_invoice example_world))
             @ emitted (snd (update_order_from_stripe example_env example_invoice example_world)) w2)) = 1"
proof -
  have h1: "invoice_status example_invoice = Some ''paid''"
    by (simp add: example_invoice_def)
  have h2: "invoice_id example_invoice = Some ''in_1''"
    by (simp add: example_invoice_def)
  have h3: "repository_get_by_stripe_invoice_id ''in_1'' example_world = Some example_order"
    by (simp add: repository_get_by_stripe_invoice_id_def example_world_def example_order_def)
  have h4: "order_status example_order \<noteq> OrderStatus_paid"
    by (simp add: example_order_def)
  have h5: "organization_repository_get_by_id
              (organization_id (product_organization
                 (order_product (example_order\<lparr>order_status := OrderStatus_paid\<rparr>)))) example_world
            \<noteq> None"
    by (simp add: organization_repository_get_by_id_def example_world_def example_order_def
          example_product_def example_organization_def)
  have h6: "order_subscription_id (example_order\<lparr>order_status := OrderStatus_paid\<rparr>) \<noteq> None
            \<and> order_billing_reason (example_order\<lparr>order_status := OrderStatus_paid\<rparr>)
                = OrderBillingReason_subscription_cycle"
    by (simp add: order_subscription_id_def example_order_def)
  show ?thesis
    using paid_update_twice_fires_on_the_edge_only [OF h1 h2 h3 example_first_update] h4 h5 h6
    unfolding example_first_update snd_conv
    by auto
qed

section \<open>Balance settlement: the existence guard and the transferred amount\<close>

lemma find_append_last: "P b \<Longrightarrow> find P (xs @ [b]) \<noteq> None"
  by (induction xs) auto

lemma find_None_filter: "find P xs = None \<Longrightarrow> filter P xs = []"
  by (induction xs) (auto split: if_splits)

lemma get_by_charge_session_add:
  assumes "balance_transaction_get_by_charge ty c w = Some t"
  shows "balance_transaction_get_by_charge ty c (session_add_transaction (linked_payment_transaction order t) w)
         = Some (linked_payment_transaction order t)"
proof -
  have P: "transaction_type t = ty \<and> transaction_charge_id t = Some c"
    using find_Some_P [of "\<lambda>t. transaction_type t = ty \<and> transaction_charge_id t = Some c" "transactions w" t] assms
    by (simp add: balance_transaction_get_by_charge_def)
  have P1: "transaction_type (linked_payment_transaction order t) = ty
            \<and> transaction_charge_id (linked_payment_transaction order t) = Some c"
    using P by (simp add: linked_payment_transaction_def)
  have "find (\<lambda>t. transaction_type t = ty \<and> transaction_charge_id t = Some c)
          (map (\<lambda>row. if transaction_id row = transaction_id t
                      then linked_payment_transaction order t else row) (transactions w))
        = Some (linked_payment_transaction order t)"
    using assms P1
    by (intro find_map_replace) (simp_all add: balance_transaction_get_by_charge_def)
  moreover have "transaction_id (linked_payment_transaction order t) = transaction_id t"
    by (simp add: linked_payment_transaction_def)
  ultimately show ?thesis
    by (simp add: balance_transaction_get_by_charge_def session_add_transaction_def)
qed

lemma linked_payment_transaction_simps [simp]:
  "transaction_id (linked_payment_transaction order t) = transaction_id t"
  "transaction_amount (linked_payment_transaction order t) = transaction_amount t"
  "linked_payment_transaction order (linked_payment_transaction order t) = linked_payment_transaction order t"
  by (simp_all add: linked_payment_transaction_def)

lemma session_add_transaction_simps [simp]:
  "held_balances (session_add_transaction t w) = held_balances w"
  "accounts (session_add_transaction t w) = accounts w"
  "effects (session_add_transaction t w) = effects w"
  by (simp_all add: session_add_transaction_def)

lemma create_order_balance_no_account:
  assumes "account_repository_get_by_organization (organization_id (order_organization order)) w = None"
    and "balance_transaction_get_by_charge TransactionType_payment charge_id w = Some t"
  shows "create_order_balance order charge_id w =
     (let w1 = session_add_transaction (linked_payment_transaction order t) w
      in case held_balance_service_get_by (transaction_id t)
                (organization_id (order_organization order)) w of
           Some existing \<Rightarrow> (Inl (AlreadyBalancedOrder (order_id order) (transaction_id t)), w1)
         | None \<Rightarrow>
             (Inr (),
              w1\<lparr>held_balances := held_balances w @ [order_held_balance order t],
                  effects := effects w @
                    [notifications_send_to_org_members (organization_id (order_organization order))
                       (maintainer_create_account (organization_slug (order_organization order))
                          (organization_account_url (order_organization order)))]\<rparr>))"
  using assms
  by (simp add: create_order_balance_def Let_def linked_payment_transaction_def
        order_held_balance_def held_balance_service_get_by_def held_balance_service_create_def
        emit_def split: option.splits)

lemma create_order_balance_account:
  assumes "account_repository_get_by_organization (organization_id (order_organization order)) w = Some a"
    and "balance_transaction_get_by_charge TransactionType_payment charge_id w = Some t"
  shows "create_order_balance order charge_id w =
     (let w1 = session_add_transaction (linked_payment_transaction order t) w
      in case balance_transaction_get_by_payment TransactionType_balance (transaction_id t)
                (account_id a) w1 of
           Some existing \<Rightarrow> (Inl (AlreadyBalancedOrder (order_id order) (transaction_id t)), w1)
         | None \<Rightarrow>
             (Inr (),
              emit (platform_fee_create_fees_reversal_balances
                      (fst (create_balance_from_charge a charge_id (transaction_amount t) order w1)))
                (snd (create_balance_from_charge a charge_id (transaction_amount t) order w1))))"
  using assms
  by (simp add: create_order_balance_def Let_def linked_payment_transaction_def
        split: option.splits prod.splits)

lemma example_no_account:
  "account_repository_get_by_organization (organization_id (order_organization example_order))
     example_world = None"
  by (simp add: account_repository_get_by_organization_def example_world_def)

lemma example_get_by_charge:
  "balance_transaction_get_by_charge TransactionType_payment ''ch_1'' example_world
     = Some example_payment_transaction"
  by (simp add: balance_transaction_get_by_charge_def example_world_def
        example_payment_transaction_def)

text \<open>
  Claim C2. Take an order whose organization has no payout account and a charge for which
  a payment transaction is recorded. Whatever the first call of \<^verbatim>\<open>create_order_balance\<close>
  did, a second call for the same order and charge raises \<^verbatim>\<open>AlreadyBalancedOrder\<close> and
  creates no held balance: the held balances after it are those after the first call.
  When no held balance existed for this payment transaction and organization, the first
  call succeeds and after both calls there is exactly one.
\<close>

theorem create_order_balance_twice_already_balanced:
  assumes "account_repository_get_by_organization (organization_id (order_organization order)) w = None"
    and "balance_transaction_get_by_charge TransactionType_payment charge_id w = Some t"
  shows "fst (create_order_balance order charge_id (snd (create_order_balance order charge_id w)))
           = Inl (AlreadyBalancedOrder (order_id order) (transaction_id t))
         \<and> held_balances (snd (create_order_balance order charge_id
                                  (snd (create_order_balance order charge_id w))))
           = held_balances (snd (create_order_balance order charge_id w))
         \<and> (held_balance_service_get_by (transaction_id t)
               (organization_id (order_organization order)) w = None \<longrightarrow>
             fst (create_order_balance order charge_id w) = Inr ()
             \<and> length (filter (\<lambda>h. held_balance_payment_transaction_id h = transaction_id t
                                  \<and> held_balance_organization_id h
                                      = Some (organization_id (order_organization order)))
                   (held_balances (snd (create_order_balance order charge_id
                                          (snd (create_order_balance order charge_id w)))))) = 1)"
proof -
  let ?org = "organization_id (order_organization order)"
  let ?w1 = "snd (create_order_balance order charge_id w)"
  let ?P = "\<lambda>h. held_balance_payment_transaction_id h = transaction_id t
                \<and> held_balance_organization_id h = Some ?org"
  have acc1: "account_repository_get_by_organization ?org ?w1 = None"
    using assms
    by (simp add: create_order_balance_no_account Let_def account_repository_get_by_organization_def
          split: option.splits)
  have ptx1: "balance_transaction_get_by_charge TransactionType_payment charge_id ?w1
                = Some (linked_payment_transaction order t)"
    using get_by_charge_session_add [OF assms(2), of order]
    by (simp add: create_order_balance_no_account [OF assms] Let_def
          balance_transaction_get_by_charge_def split: option.splits)
  have hb1: "held_balance_service_get_by (transaction_id t) ?org ?w1 \<noteq> None"
  proof (cases "held_balance_service_get_by (transaction_id t) ?org w")
    case None
    then show ?thesis
      using find_append_last [of ?P "order_held_balance order t" "held_balances w"]
      by (simp add: create_order_balance_no_account [OF assms] Let_def
            held_balance_service_get_by_def order_held_balance_def)
  next
    case (Some h)
    then show ?thesis
      by (simp add: create_order_balance_no_account [OF assms] Let_def
            held_balance_service_get_by_def)
  qed
  have second: "create_order_balance order charge_id ?w1 =
      (Inl (AlreadyBalancedOrder (order_id order) (transaction_id t)),
       session_add_transaction (linked_payment_transaction order t) ?w1)"
    using hb1 by (auto simp: create_order_balance_no_account [OF acc1 ptx1] Let_def)
  have once: "held_balance_service_get_by (transaction_id t) ?org w = None \<Longrightarrow>
      fst (create_order_balance order charge_id w) = Inr ()
      \<and> length (filter ?P (held_balances ?w1)) = 1"
    using find_None_filter [of ?P "held_balances w"]
    by (simp add: create_order_balance_no_account [OF assms] Let_def
          held_balance_service_get_by_def order_held_balance_def)
  show ?thesis
    using second once by simp
qed

theorem create_order_balance_twice_already_balanced_witness:
  "fst (create_order_balance example_order ''ch_1'' example_world) = Inr ()
   \<and> fst (create_order_balance example_order ''ch_1''
            (snd (create_order_balance example_order ''ch_1'' example_world)))
      = Inl (AlreadyBalancedOrder 10 30)
   \<and> held_balances (snd (create_order_balance example_order ''ch_1''
                            (snd (create_order_balance example_order ''ch_1'' example_world))))
      = held_balances (snd (create_order_balance example_order ''ch_1'' example_world))"
proof -
  have h: "held_balance_service_get_by (transaction_id example_payment_transaction)
             (organization_id (order_organization example_order)) example_world = None"
    by (simp add: held_balance_service_get_by_def example_world_def)
  have ids: "order_id example_order = 10" "transaction_id example_payment_transaction = 30"
    by (simp_all add: example_order_def example_payment_transaction_def)
  show ?thesis
    using create_order_balance_twice_already_balanced [OF example_no_account example_get_by_charge] h
    by (simp add: ids)
qed

text \<open>
  Claim C6. Whenever a payment transaction exists for the charge, what
  \<^verbatim>\<open>create_order_balance\<close> transfers is the amount of that payment transaction, whatever the
  amounts of the order are. Without a payout account the held balance it stores carries
  that amount; with one, the two legs of the balance transfer it creates carry that amount
  (out of the source, into the account). When the order is already balanced it raises and
  adds no held balance and no balance transaction.
\<close>

theorem transfer_amount_is_payment_amount:
  assumes "balance_transaction_get_by_charge TransactionType_payment charge_id w = Some t"
  shows "(account_repository_get_by_organization (organization_id (order_organization order)) w = None \<longrightarrow>
           (held_balance_service_get_by (transaction_id t)
              (organization_id (order_organization order)) w = None \<longrightarrow>
              fst (create_order_balance order charge_id w) = Inr ()
              \<and> held_balances (snd (create_order_balance order charge_id w)) =
                  held_balances w @
                    [\<lparr>held_balance_amount = transaction_amount t,
                      held_balance_order_id = order_id order,
                      held_balance_payment_transaction_id = transaction_id t,
                      held_balance_organization_id =
                        Some (organization_id (order_organization order))\<rparr>])
           \<and> (held_balance_service_get_by (transaction_id t)
                 (organization_id (order_organization order)) w \<noteq> None \<longrightarrow>
               fst (create_order_balance order charge_id w)
                 = Inl (AlreadyBalancedOrder (order_id order) (transaction_id t))
               \<and> held_balances (snd (create_order_balance order charge_id w)) = held_balances w))
       \<and> (\<forall>a. account_repository_get_by_organization (organization_id (order_organization order)) w
                 = Some a \<longrightarrow>
           (balance_transaction_get_by_payment TransactionType_balance (transaction_id t) (account_id a)
              (session_add_transaction (linked_payment_transaction order t) w) = None \<longrightarrow>
              fst (create_order_balance order charge_id w) = Inr ()
              \<and> (\<exists>outgoing incoming.
                    transactions (snd (create_order_balance order charge_id w)) =
                      transactions (session_add_transaction (linked_payment_transaction order t) w)
                      @ [outgoing, incoming]
                    \<and> transaction_type incoming = TransactionType_balance
                    \<and> transaction_account_id incoming = Some (account_id a)
                    \<and> transaction_amount incoming = transaction_amount t
                    \<and> transaction_type outgoing = TransactionType_balance
                    \<and> transaction_amount outgoing = - transaction_amount t
                    \<and> effects (snd (create_order_balance order charge_id w)) =
                        effects w @ [platform_fee_create_fees_reversal_balances (outgoing, incoming)]))
           \<and> (balance_transaction_get_by_payment TransactionType_balance (transaction_id t) (account_id a)
                 (session_add_transaction (linked_payment_transaction order t) w) \<noteq> None \<longrightarrow>
               fst (create_order_balance order charge_id w)
                 = Inl (AlreadyBalancedOrder (order_id order) (transaction_id t))
               \<and> transactions (snd (create_order_balance order charge_id w)) =
                   transactions (session_add_transaction (linked_payment_transaction order t) w)))"
proof (intro conjI impI allI)
  assume na: "account_repository_get_by_organization (organization_id (order_organization order)) w = None"
  {
    assume "held_balance_service_get_by (transaction_id t)
              (organization_id (order_organization order)) w = None"
    then show "fst (create_order_balance order charge_id w) = Inr ()"
      and "held_balances (snd (create_order_balance order charge_id w)) =
                  held_balances w @
                    [\<lparr>held_balance_amount = transaction_amount t,
                      held_balance_order_id = order_id order,
                      held_balance_payment_transaction_id = transaction_id t,
                      held_balance_organization_id =
                        Some (organization_id (order_organization order))\<rparr>]"
      by (simp_all add: create_order_balance_no_account [OF na assms] Let_def order_held_balance_def)
  }
  {
    assume "held_balance_service_get_by (transaction_id t)
              (organization_id (order_organization order)) w \<noteq> None"
    then show "fst (create_order_balance order charge_id w)
                 = Inl (AlreadyBalancedOrder (order_id order) (transaction_id t))"
      and "held_balances (snd (create_order_balance order charge_id w)) = held_balances w"
      by (auto simp: create_order_balance_no_account [OF na assms] Let_def)
  }
next
  fix a
  assume sa: "account_repository_get_by_organization (organization_id (order_organization order)) w = Some a"
  {
    assume "balance_transaction_get_by_payment TransactionType_balance (transaction_id t) (account_id a)
              (session_add_transaction (linked_payment_transaction order t) w) = None"
    then show "fst (create_order_balance order charge_id w) = Inr ()"
      and "\<exists>outgoing incoming.
                    transactions (snd (create_order_balance order charge_id w)) =
                      transactions (session_add_transaction (linked_payment_transaction order t) w)
                      @ [outgoing, incoming]
                    \<and> transaction_type incoming = TransactionType_balance
                    \<and> transaction_account_id incoming = Some (account_id a)
                    \<and> transaction_amount incoming = transaction_amount t
                    \<and> transaction_type outgoing = TransactionType_balance
                    \<and> transaction_amount outgoing = - transaction_amount t
                    \<and> effects (snd (create_order_balance order charge_id w)) =
                        effects w @ [platform_fee_create_fees_reversal_balances (outgoing, incoming)]"
      by (simp_all add: create_order_balance_account [OF sa assms] Let_def
            create_balance_from_charge_def emit_def)
  }
  {
    assume "balance_transaction_get_by_payment TransactionType_balance (transaction_id t) (account_id a)
              (session_add_transaction (linked_payment_transaction order t) w) \<noteq> None"
    then show "fst (create_order_balance order charge_id w)
                 = Inl (AlreadyBalancedOrder (order_id order) (transaction_id t))"
      and "transactions (snd (create_order_balance order charge_id w)) =
                   transactions (session_add_transaction (linked_payment_transaction order t) w)"
      by (auto simp: create_order_balance_account [OF sa assms] Let_def)
  }
qed

theorem transfer_amount_is_payment_amount_witness:
  "order_total_amount example_order = 10000
   \<and> held_balances (snd (create_order_balance example_order ''ch_1'' example_world)) =
       [\<lparr>held_balance_amount = 9000, held_balance_order_id = 10,
         held_balance_payment_transaction_id = 30, held_balance_organization_id = Some 1\<rparr>]
   \<and> map transaction_amount
         (transactions (snd (create_order_balance example_order ''ch_1'' example_account_world)))
       = [9000, - 9000, 9000]"
proof -
  have total: "order_total_amount example_order = 10000"
    by (simp add: order_total_amount_def order_net_amount_def example_order_def)
  have h: "held_balance_service_get_by (transaction_id example_payment_transaction)
             (organization_id (order_organization example_order)) example_world = None"
    by (simp add: held_balance_service_get_by_def example_world_def)
  have vals: "transaction_amount example_payment_transaction = 9000"
    "transaction_id example_payment_transaction = 30" "order_id example_order = 10"
    "organization_id (order_organization example_order) = 1" "held_balances example_world = []"
    by (simp_all add: example_payment_transaction_def example_order_def order_organization_def
          example_product_def example_organization_def example_world_def)
  have held: "held_balances (snd (create_order_balance example_order ''ch_1'' example_world)) =
       [\<lparr>held_balance_amount = 9000, held_balance_order_id = 10,
         held_balance_payment_transaction_id = 30, held_balance_organization_id = Some 1\<rparr>]"
    using transfer_amount_is_payment_amount [OF example_get_by_charge, of example_order]
      example_no_account h
    by (simp add: vals)
  have g: "balance_transaction_get_by_charge TransactionType_payment ''ch_1'' example_account_world
           = Some example_payment_transaction"
    by (simp add: balance_transaction_get_by_charge_def example_account_world_def example_world_def
          example_payment_transaction_def)
  have a: "account_repository_get_by_organization
             (organization_id (order_organization example_order)) example_account_world
           = Some \<lparr>account_id = 60\<rparr>"
    by (simp add: account_repository_get_by_organization_def example_account_world_def vals)
  have w1: "map transaction_amount (transactions
              (session_add_transaction (linked_payment_transaction example_order example_payment_transaction)
                 example_account_world)) = [9000]"
    by (simp add: session_add_transaction_def example_account_world_def example_world_def
          linked_payment_transaction_def example_payment_transaction_def)
  have b: "balance_transaction_get_by_payment TransactionType_balance
             (transaction_id example_payment_transaction) (account_id \<lparr>account_id = 60\<rparr>)
             (session_add_transaction (linked_payment_transaction example_order example_payment_transaction)
                example_account_world) = None"
    by (simp add: balance_transaction_get_by_payment_def session_add_transaction_def
          example_account_world_def example_world_def linked_payment_transaction_def
          example_payment_transaction_def)
  have legs: "map transaction_amount
         (transactions (snd (create_order_balance example_order ''ch_1'' example_account_world)))
       = [9000, - 9000, 9000]"
    using transfer_amount_is_payment_amount [OF g, of example_order] a b w1
    by (auto simp: vals)
  show ?thesis
    using total held legs by simp
qed

section \<open>Checkout-to-order converter: the custom-price scenario\<close>

lemma send_admin_notification_eq:
  "send_admin_notification organization order w =
     w\<lparr>effects := effects w @
        [notifications_send_to_org_members
           (organization_id (product_organization (order_product order)))
           (maintainer_new_product_sale (customer_email (order_customer order))
              (product_name (order_product order)) (order_net_amount order)
              (organization_slug organization))]\<rparr>"
  by (simp add: send_admin_notification_def emit_def Let_def)

lemma send_confirmation_email_eq:
  "send_confirmation_email organization order w =
     w\<lparr>effects := effects w @ [enqueue_email (customer_email (order_customer order))]\<rparr>"
  by (simp add: send_confirmation_email_def emit_def)

text \<open>
  Claim C4, as amended. Take a checkout that \<^verbatim>\<open>create_from_checkout\<close> accepts (its product
  is not recurring, it has a customer, and a captured payment, when passed, has the amount
  of the order) with a single custom price, chosen amount 10000, no discount, no tax
  processor id and no recorded tax amount (\<^verbatim>\<open>tax_amount\<close> is \<^verbatim>\<open>None\<close> or 0). Then
  \<^verbatim>\<open>create_from_checkout\<close> returns and stores an order with subtotal 10000, discount 0, tax
  0, exactly one item of amount 10000, and status paid.
\<close>

theorem create_from_checkout_custom_price_scenario:
  assumes "\<not> product_is_recurring (checkout_product checkout)"
    and "checkout_customer checkout = Some customer"
    and "product_prices (checkout_product checkout) = [price]"
    and "is_custom_price price"
    and "checkout_amount checkout = 10000"
    and "checkout_discount checkout = None"
    and "checkout_tax_processor_id checkout = None"
    and "checkout_tax_amount checkout = None \<or> checkout_tax_amount checkout = Some 0"
    and "payment = None \<or> (\<exists>p. payment = Some p \<and> payment_amount p = 10000)"
  shows "\<exists>order w1. create_from_checkout env checkout payment w = (Inr order, w1)
           \<and> order_subtotal_amount order = 10000
           \<and> order_discount_amount order = 0
           \<and> order_tax_amount order = 0
           \<and> map order_item_amount (order_items order) = [10000]
           \<and> order_status order = OrderStatus_paid
           \<and> order \<in> set (orders w1)"
  using assms
  by (auto simp: create_from_checkout_def Let_def checkout_discount_amount_def or_zero_def
        is_custom_price_def order_item_from_price_def repository_create_def
        order_total_amount_def order_net_amount_def on_order_created_eq
        send_admin_notification_eq send_confirmation_email_eq emit_def
        payment_repository_update_def)

theorem create_from_checkout_custom_price_scenario_witness:
  "\<exists>order w1. create_from_checkout example_env example_checkout None example_world = (Inr order, w1)
      \<and> order_subtotal_amount order = 10000
      \<and> order_discount_amount order = 0
      \<and> order_tax_amount order = 0
      \<and> map order_item_amount (order_items order) = [10000]
      \<and> order_status order = OrderStatus_paid
      \<and> order \<in> set (orders w1)"
proof -
  have h: "\<not> product_is_recurring (checkout_product example_checkout)"
    "checkout_customer example_checkout = Some example_customer"
    "product_prices (checkout_product example_checkout) = [example_price]"
    "is_custom_price example_price"
    "checkout_amount example_checkout = 10000"
    "checkout_discount example_checkout = None"
    "checkout_tax_processor_id example_checkout = None"
    "checkout_tax_amount example_checkout = None \<or> checkout_tax_amount example_checkout = Some 0"
    "(None :: Payment option) = None \<or> (\<exists>p. (None :: Payment option) = Some p \<and> payment_amount p = 10000)"
    by (simp_all add: example_checkout_def example_product_def example_price_def is_custom_price_def)
  show ?thesis
    using create_from_checkout_custom_price_scenario [OF h, of example_env example_world] .
qed

theorem create_from_checkout_tax_without_processor_counterexample:
  "\<not> product_is_recurring (checkout_product example_taxed_checkout)
   \<and> checkout_customer example_taxed_checkout = Some example_customer
   \<and> product_prices (checkout_product example_taxed_checkout) = [example_price]
   \<and> is_custom_price example_price
   \<and> checkout_amount example_taxed_checkout = 10000
   \<and> checkout_discount example_taxed_checkout = None
   \<and> checkout_tax_processor_id example_taxed_checkout = None
   \<and> map_sum id order_tax_amount
         (fst (create_from_checkout example_env example_taxed_checkout None example_world)) = Inr 500
   \<and> map_sum id order_subtotal_amount
         (fst (create_from_checkout example_env example_taxed_checkout None example_world)) = Inr 10000"
  by (simp add: example_taxed_checkout_def example_checkout_def example_product_def
        example_price_def is_custom_price_def create_from_checkout_def Let_def
        checkout_discount_amount_def or_zero_def order_item_from_price_def repository_create_def
        on_order_created_eq send_admin_notification_eq send_confirmation_email_eq)

section \<open>Invoice reconciliation: creating an order\<close>

lemma example_subscription_lookup:
  "subscription_repository_get_by_stripe_subscription_id ''sub_1'' example_world
     = Some example_subscription"
  by (simp add: subscription_repository_get_by_stripe_subscription_id_def example_world_def
        example_subscription_def)

lemma example_subscription_customer [simp]:
  "subscription_customer example_subscription = example_customer"
  by (simp add: example_subscription_def)

lemma example_billing_address:
  "retrieve_billing_address env example_customer invoice = Inr (Some example_address)"
  by (simp add: retrieve_billing_address_def example_customer_def)

text \<open>
  The discount step of \<^verbatim>\<open>create_order_from_stripe\<close>, for an invoice that reaches it (it has
  an id, is not a pledge invoice, is linked to a subscription that exists locally, and its
  billing address resolves) and references an external coupon. The step raises
  \<^verbatim>\<open>DiscountDoesNotExist\<close> when the metadata of the coupon is \<^verbatim>\<open>None\<close> and when the discount id
  the metadata carries is a well-formed identifier of no discount record.
\<close>

lemma create_order_from_stripe_discount_does_not_exist:
  assumes "invoice_id invoice = Some iid"
    and "dict_get (or_empty (invoice_metadata invoice)) ''type'' \<noteq> Some ProductType_pledge"
    and "invoice_subscription invoice = Some stripe_subscription_id"
    and "subscription_repository_get_by_stripe_subscription_id stripe_subscription_id w
           = Some subscription"
    and "retrieve_billing_address env (subscription_customer subscription) invoice
           = Inr billing_address"
    and "invoice_discount invoice = Some stripe_discount"
    and "coupon_metadata (stripe_discount_coupon stripe_discount) = None
         \<or> (\<exists>metadata did u.
               coupon_metadata (stripe_discount_coupon stripe_discount) = Some metadata
               \<and> dict_get metadata ''discount_id'' = Some did
               \<and> uuid_UUID env did = Some u
               \<and> discount_service_get u w = None)"
  shows "create_order_from_stripe env invoice w =
           (Inl (DiscountDoesNotExist iid (coupon_id (stripe_discount_coupon stripe_discount))), w)"
proof -
  have "get_discount env iid invoice w =
          Inl (DiscountDoesNotExist iid (coupon_id (stripe_discount_coupon stripe_discount)))"
    using assms(6,7) by (auto simp: get_discount_def Let_def)
  then show ?thesis
    using assms(1-5) by (simp add: create_order_from_stripe_def Let_def)
qed

text \<open>
  The same step raises Python's own exceptions in two other cases: \<^verbatim>\<open>KeyError\<close> from the
  subscript \<^verbatim>\<open>metadata["discount_id"]\<close> when the metadata is present without that key, and
  \<^verbatim>\<open>ValueError\<close> from \<^verbatim>\<open>uuid.UUID\<close> when the value under the key is not a well-formed
  identifier.
\<close>

lemma create_order_from_stripe_discount_untyped_errors:
  assumes "invoice_id invoice = Some iid"
    and "dict_get (or_empty (invoice_metadata invoice)) ''type'' \<noteq> Some ProductType_pledge"
    and "invoice_subscription invoice = Some stripe_subscription_id"
    and "subscription_repository_get_by_stripe_subscription_id stripe_subscription_id w
           = Some subscription"
    and "retrieve_billing_address env (subscription_customer subscription) invoice
           = Inr billing_address"
    and "invoice_discount invoice = Some stripe_discount"
    and "coupon_metadata (stripe_discount_coupon stripe_discount) = Some metadata"
  shows "dict_get metadata ''discount_id'' = None \<Longrightarrow>
           create_order_from_stripe env invoice w = (Inl (KeyError ''discount_id''), w)"
    and "dict_get metadata ''discount_id'' = Some did \<Longrightarrow> uuid_UUID env did = None \<Longrightarrow>
           create_order_from_stripe env invoice w = (Inl ValueError, w)"
proof -
  assume "dict_get metadata ''discount_id'' = None"
  then have "get_discount env iid invoice w = Inl (KeyError ''discount_id'')"
    using assms(6,7) by (simp add: get_discount_def Let_def)
  then show "create_order_from_stripe env invoice w = (Inl (KeyError ''discount_id''), w)"
    using assms(1-5) by (simp add: create_order_from_stripe_def Let_def)
next
  assume "dict_get metadata ''discount_id'' = Some did" and "uuid_UUID env did = None"
  then have "get_discount env iid invoice w = Inl ValueError"
    using assms(6,7) by (simp add: get_discount_def Let_def)
  then show "create_order_from_stripe env invoice w = (Inl ValueError, w)"
    using assms(1-5) by (simp add: create_order_from_stripe_def Let_def)
qed

lemma example_coupon_invoice_reaches_discount:
  "invoice_id (example_coupon_invoice m) = Some ''in_1''"
  "dict_get (or_empty (invoice_metadata (example_coupon_invoice m))) ''type'' \<noteq> Some ProductType_pledge"
  "invoice_subscription (example_coupon_invoice m) = Some ''sub_1''"
  "invoice_discount (example_coupon_invoice m) =
     Some \<lparr>stripe_discount_coupon = \<lparr>coupon_id = ''co_1'', coupon_metadata = m\<rparr>\<rparr>"
  by (simp_all add: example_coupon_invoice_def example_invoice_def or_empty_def dict_get_def)

text \<open>
  Claim C8. The claim is that \<^verbatim>\<open>create_order_from_stripe\<close>, on an invoice referencing an
  external coupon, fails with \<^verbatim>\<open>DiscountDoesNotExist\<close> whenever the metadata of the coupon is
  missing or the discount record its discount id refers to does not exist. The code
  does so for a coupon whose metadata is \<^verbatim>\<open>None\<close> and for a well-formed discount id without
  a record. It does not for a coupon whose metadata is present but carries no discount id,
  as the processor reports a coupon that has no metadata (the empty dictionary): there
  line 565 raises \<^verbatim>\<open>KeyError\<close>. Nor does it for a discount id that is not a well-formed
  identifier, which can refer to no record: there line 567 raises \<^verbatim>\<open>ValueError\<close>. The
  theorem evaluates the function on the subscription invoice \<open>in_1\<close> of the concrete
  data, with coupon \<open>co_1\<close> and each of the four kinds of metadata in turn.
\<close>

theorem create_order_from_stripe_coupon_without_discount_id:
  "create_order_from_stripe example_env (example_coupon_invoice (Some [])) example_world
     = (Inl (KeyError ''discount_id''), example_world)
   \<and> create_order_from_stripe example_env
         (example_coupon_invoice (Some [(''discount_id'', ''not-a-uuid'')])) example_world
     = (Inl ValueError, example_world)
   \<and> create_order_from_stripe example_env (example_coupon_invoice None) example_world
     = (Inl (DiscountDoesNotExist ''in_1'' ''co_1''), example_world)
   \<and> create_order_from_stripe example_env
         (example_coupon_invoice (Some [(''discount_id'', ''00000000-0000-0000-0000-000000000028'')]))
         example_world
     = (Inl (DiscountDoesNotExist ''in_1'' ''co_1''), example_world)"
proof -
  note reach = example_coupon_invoice_reaches_discount(1-3) example_subscription_lookup
  have addr: "retrieve_billing_address example_env (subscription_customer example_subscription)
                (example_coupon_invoice m) = Inr (Some example_address)" for m
    by (simp add: example_billing_address)
  have md: "coupon_metadata (stripe_discount_coupon
              \<lparr>stripe_discount_coupon = \<lparr>coupon_id = ''co_1'', coupon_metadata = Some m\<rparr>\<rparr>)
            = Some m" for m
    by simp
  have a: "create_order_from_stripe example_env (example_coupon_invoice (Some [])) example_world
     = (Inl (KeyError ''discount_id''), example_world)"
    by (rule create_order_from_stripe_discount_untyped_errors(1)
              [OF reach addr example_coupon_invoice_reaches_discount(4) md])
       (simp add: dict_get_def)
  have b: "create_order_from_stripe example_env
         (example_coupon_invoice (Some [(''discount_id'', ''not-a-uuid'')])) example_world
     = (Inl ValueError, example_world)"
    by (rule create_order_from_stripe_discount_untyped_errors(2)
              [OF reach addr example_coupon_invoice_reaches_discount(4) md,
               where did = "''not-a-uuid''"])
       (simp_all add: dict_get_def example_env_def)
  have c: "create_order_from_stripe example_env (example_coupon_invoice None) example_world
     = (Inl (DiscountDoesNotExist ''in_1'' ''co_1''), example_world)"
    using create_order_from_stripe_discount_does_not_exist
            [OF reach addr example_coupon_invoice_reaches_discount(4), of None]
    by simp
  have d: "create_order_from_stripe example_env
         (example_coupon_invoice (Some [(''discount_id'', ''00000000-0000-0000-0000-000000000028'')]))
         example_world
     = (Inl (DiscountDoesNotExist ''in_1'' ''co_1''), example_world)"
    using create_order_from_stripe_discount_does_not_exist
            [OF reach addr example_coupon_invoice_reaches_discount(4),
             of "Some [(''discount_id'', ''00000000-0000-0000-0000-000000000028'')]"]
    by (simp add: dict_get_def example_env_def discount_service_get_def example_world_def)
  show ?thesis using a b c d by simp
qed

lemma effects_reset_meter:
  "effects (reset_meter env customer subscription sm w) =
     effects w @ meter_events env customer subscription sm"
  by (simp add: reset_meter_def meter_events_def Let_def)

lemma effects_fold_reset_meter:
  "effects (fold (reset_meter env customer subscription) ms w) =
     effects w @ concat (map (meter_events env customer subscription) ms)"
  by (induction ms arbitrary: w) (simp_all add: effects_reset_meter)

lemma effects_reset_meters:
  "effects (reset_meters env customer subscription w) =
     effects w @ concat (map (meter_events env customer subscription) (subscription_meters subscription))"
  by (simp add: reset_meters_def effects_fold_reset_meter)

lemma filter_meter_event_meter_events [simp]:
  "filter is_meter_event (meter_events env customer subscription sm) =
     meter_events env customer subscription sm"
  by (simp add: meter_events_def)

lemma filter_meter_event_concat_meter_events [simp]:
  "filter is_meter_event (concat (map (meter_events env customer subscription) ms)) =
     concat (map (meter_events env customer subscription) ms)"
  by (induction ms) simp_all

lemma filter_meter_event_webhook_calls [simp]:
  "filter is_meter_event (webhook_calls order ev w) = []"
  by (simp add: webhook_calls_def split: option.splits)

lemma filter_meter_event_paid_transition_calls [simp]:
  "filter is_meter_event (paid_transition_calls order w) = []"
  by (simp add: paid_transition_calls_def split: option.splits)

lemma effects_add_pending_billing_entries:
  "add_pending_billing_entries env iid customer subscription invoice items w = (Inr r, w1) \<Longrightarrow>
   \<exists>A. effects w1 = effects w @ A \<and> filter is_meter_event A = []"
  by (auto simp: add_pending_billing_entries_def Let_def split: if_splits option.splits)

lemma effects_repository_create [simp]:
  "effects (snd (repository_create order w)) = effects w"
  by (simp add: repository_create_def Let_def)

lemma create_order_from_stripe_meter_events:
  assumes "create_order_from_stripe env invoice w = (Inr order, w1)"
  shows "\<exists>subscription. order_subscription order = Some subscription
           \<and> order_customer order = subscription_customer subscription
           \<and> filter is_meter_event (emitted w w1) =
               concat (map (meter_events env (subscription_customer subscription) subscription)
                         (subscription_meters subscription))"
  using assms
  by (auto simp: create_order_from_stripe_def Let_def on_order_created_eq effects_reset_meters
        repository_create_def emitted_def
        split: option.splits sum.splits prod.splits if_splits
        dest!: effects_add_pending_billing_entries)

lemma filter_reset_of_meter_event:
  "filter (is_meter_reset_of m) xs = filter (is_meter_reset_of m) (filter is_meter_event xs)"
proof (induction xs)
  case Nil
  then show ?case by simp
next
  case (Cons x xs)
  then show ?case by (cases x) simp_all
qed

lemma filter_credited_of_meter_event:
  "filter (is_meter_credited_of m) xs = filter (is_meter_credited_of m) (filter is_meter_event xs)"
proof (induction xs)
  case Nil
  then show ?case by simp
next
  case (Cons x xs)
  then show ?case by (cases x) simp_all
qed

lemma count_resets:
  "length (filter (is_meter_reset_of m) (concat (map (meter_events env customer subscription) ms))) =
     length (filter (\<lambda>sm. subscription_meter_meter_id sm = m) ms)"
  by (induction ms) (simp_all add: meter_events_def)

lemma count_credits:
  "length (filter (is_meter_credited_of m) (concat (map (meter_events env customer subscription) ms))) =
     length (filter (\<lambda>sm. subscription_meter_meter_id sm = m
                          \<and> get_rollover_units env customer (subscription_meter_meter sm) > 0) ms)"
  by (induction ms) (simp_all add: meter_events_def)

lemma distinct_count_one:
  "distinct (map f xs) \<Longrightarrow> x \<in> set xs \<Longrightarrow> length (filter (\<lambda>y. f y = f x) xs) = 1"
proof (induction xs)
  case Nil
  then show ?case by simp
next
  case (Cons a xs)
  show ?case
  proof (cases "a = x")
    case True
    have "f x \<notin> f ` set xs"
      using Cons.prems(1) True by simp
    then have "filter (\<lambda>y. f y = f x) xs = []"
      unfolding filter_empty_conv by (metis imageI)
    then show ?thesis using True by simp
  next
    case False
    then have "x \<in> set xs" using Cons.prems(2) by simp
    moreover have "f a \<noteq> f x" using Cons.prems(1) calculation by auto
    ultimately show ?thesis using Cons by simp
  qed
qed

lemma distinct_count_cond:
  "distinct (map f xs) \<Longrightarrow> x \<in> set xs \<Longrightarrow>
   length (filter (\<lambda>y. f y = f x \<and> Q y) xs) = (if Q x then 1 else 0)"
proof (induction xs)
  case Nil
  then show ?case by simp
next
  case (Cons a xs)
  show ?case
  proof (cases "a = x")
    case True
    have "f x \<notin> f ` set xs"
      using Cons.prems(1) True by simp
    then have "filter (\<lambda>y. f y = f x \<and> Q y) xs = []"
      unfolding filter_empty_conv by (metis imageI)
    then show ?thesis using True by simp
  next
    case False
    then have "x \<in> set xs" using Cons.prems(2) by simp
    moreover have "f a \<noteq> f x" using Cons.prems(1) calculation by auto
    ultimately show ?thesis using Cons by simp
  qed
qed

text \<open>
  Claim C5. Whenever \<^verbatim>\<open>create_order_from_stripe\<close> creates an order, the order belongs to a
  subscription, and the meter events the call records are, for the meters attached to the
  subscription taken in order, one \<^verbatim>\<open>meter_reset\<close> event followed by a \<^verbatim>\<open>meter_credited\<close>
  event carrying the rollover units exactly when those units are strictly positive. So
  the number of \<^verbatim>\<open>meter_reset\<close> events of a meter is the number of its attachments, and the
  number of its \<^verbatim>\<open>meter_credited\<close> events is the number of its attachments with positive
  rollover; with every meter attached once, each attached meter has exactly one
  \<^verbatim>\<open>meter_reset\<close> event, and one \<^verbatim>\<open>meter_credited\<close> event if its rollover units are
  positive and none otherwise.
\<close>

theorem create_order_from_stripe_resets_meters:
  assumes "create_order_from_stripe env invoice w = (Inr order, w1)"
  shows "\<exists>subscription. order_subscription order = Some subscription
           \<and> filter is_meter_event (emitted w w1) =
               concat (map (meter_events env (order_customer order) subscription)
                         (subscription_meters subscription))
           \<and> (\<forall>m. length (filter (is_meter_reset_of m) (emitted w w1)) =
                     length (filter (\<lambda>sm. subscription_meter_meter_id sm = m)
                               (subscription_meters subscription))
                  \<and> length (filter (is_meter_credited_of m) (emitted w w1)) =
                     length (filter (\<lambda>sm. subscription_meter_meter_id sm = m
                                        \<and> get_rollover_units env (order_customer order)
                                              (subscription_meter_meter sm) > 0)
                               (subscription_meters subscription)))
           \<and> (distinct (map subscription_meter_meter_id (subscription_meters subscription)) \<longrightarrow>
                (\<forall>sm \<in> set (subscription_meters subscription).
                   length (filter (is_meter_reset_of (subscription_meter_meter_id sm)) (emitted w w1)) = 1
                   \<and> length (filter (is_meter_credited_of (subscription_meter_meter_id sm))
                               (emitted w w1)) =
                       (if get_rollover_units env (order_customer order)
                             (subscription_meter_meter sm) > 0 then 1 else 0)))"
proof -
  from create_order_from_stripe_meter_events [OF assms]
  obtain subscription where sub: "order_subscription order = Some subscription"
    and cust: "order_customer order = subscription_customer subscription"
    and ev: "filter is_meter_event (emitted w w1) =
               concat (map (meter_events env (subscription_customer subscription) subscription)
                         (subscription_meters subscription))"
    by blast
  let ?ms = "subscription_meters subscription"
  let ?c = "order_customer order"
  have ev1: "filter is_meter_event (emitted w w1) =
               concat (map (meter_events env ?c subscription) ?ms)"
    using ev cust by simp
  have resets: "length (filter (is_meter_reset_of m) (emitted w w1)) =
                  length (filter (\<lambda>sm. subscription_meter_meter_id sm = m) ?ms)" for m
    using filter_reset_of_meter_event [of m "emitted w w1"]
    by (simp add: ev1 count_resets)
  have credits: "length (filter (is_meter_credited_of m) (emitted w w1)) =
                  length (filter (\<lambda>sm. subscription_meter_meter_id sm = m
                                     \<and> get_rollover_units env ?c (subscription_meter_meter sm) > 0) ?ms)"
    for m
    using filter_credited_of_meter_event [of m "emitted w w1"]
    by (simp add: ev1 count_credits)
  have one: "length (filter (is_meter_reset_of (subscription_meter_meter_id sm)) (emitted w w1)) = 1
             \<and> length (filter (is_meter_credited_of (subscription_meter_meter_id sm)) (emitted w w1)) =
                 (if get_rollover_units env ?c (subscription_meter_meter sm) > 0 then 1 else 0)"
    if "distinct (map subscription_meter_meter_id ?ms)" and "sm \<in> set ?ms" for sm
    using that distinct_count_one [of subscription_meter_meter_id ?ms sm]
      distinct_count_cond [of subscription_meter_meter_id ?ms sm
        "\<lambda>sm. get_rollover_units env ?c (subscription_meter_meter sm) > 0"]
    by (simp add: resets credits)
  show ?thesis
    using sub ev1 resets credits one by blast
qed

lemma example_create_order_from_stripe:
  "\<exists>order w1. create_order_from_stripe example_env example_invoice example_world = (Inr order, w1)
      \<and> order_subscription order = Some example_subscription
      \<and> order_customer order = example_customer
      \<and> order_billing_reason order = OrderBillingReason_subscription_cycle"
  by (simp add: create_order_from_stripe_def Let_def example_subscription_lookup
        example_billing_address get_discount_def get_checkout_def add_pending_billing_entries_def
        determine_billing_reason_def OrderBillingReason_of_value_def
        on_order_created_eq repository_create_def
        example_invoice_def or_empty_def dict_get_def truthy_def
        split: prod.splits)

theorem create_order_from_stripe_resets_meters_witness:
  "\<exists>order w1. create_order_from_stripe example_env example_invoice example_world = (Inr order, w1)
      \<and> order_billing_reason order = OrderBillingReason_subscription_cycle
      \<and> filter is_meter_event (emitted example_world w1) =
          [event_service_create_event 3 1 (SystemEvent_meter_reset 20),
           event_service_create_event 3 1 (SystemEvent_meter_credited 20 5 True),
           event_service_create_event 3 1 (SystemEvent_meter_reset 21)]"
proof -
  from example_create_order_from_stripe obtain order w1 where
    eq: "create_order_from_stripe example_env example_invoice example_world = (Inr order, w1)"
    and sub: "order_subscription order = Some example_subscription"
    and cust: "order_customer order = example_customer"
    and reason: "order_billing_reason order = OrderBillingReason_subscription_cycle"
    by blast
  have "filter is_meter_event (emitted example_world w1) =
          [event_service_create_event 3 1 (SystemEvent_meter_reset 20),
           event_service_create_event 3 1 (SystemEvent_meter_credited 20 5 True),
           event_service_create_event 3 1 (SystemEvent_meter_reset 21)]"
    using create_order_from_stripe_resets_meters [OF eq] sub cust
    by (auto simp: meter_events_def example_subscription_def example_meter_a_def example_meter_b_def
          example_customer_def example_env_def subscription_organization_def example_product_def
          example_organization_def)
  then show ?thesis using eq reason by blast
qed

end
